theory Spec2Isabelle
  imports Complex_Main "HOL-Library.Sublist"
begin

section \<open>JavaScript numbers\<close>

text \<open>
  The analytics of \<^verbatim>\<open>frontend/src/pages/Insights.tsx\<close> compute with JavaScript
  numbers, which are IEEE 754 double-precision values. A number is modelled as a finite
  value, one of the two infinities, or NaN, so that \<^verbatim>\<open>0 / 0\<close> and the guard
  \<^verbatim>\<open>x || 0\<close> are branches of the model. A finite value is the rational it denotes, and
  every addition, multiplication and division rounds its exact result to the nearest value
  with 53 significant bits, a tie going to the even one, as the hardware does. The exponent
  range is taken unbounded (no overflow to infinity, no gradual underflow: the measures of
  this program stay far from both), and the sign of zero is not modelled.
\<close>

text \<open>The number of binary digits of a positive integer.\<close>

function bitlen :: "int \<Rightarrow> nat" where
  "bitlen n = (if n \<le> 0 then 0 else Suc (bitlen (n div 2)))"
  by pat_completeness auto
termination
  by (relation "measure nat") auto

declare bitlen.simps [simp del]

definition pow2 :: "int \<Rightarrow> rat" where
  "pow2 e = (if 0 \<le> e then 2 ^ nat e else 1 / 2 ^ nat (- e))"

text \<open>The exponent \<open>e\<close> with \<open>2 ^ e \<le> |x| < 2 ^ (e + 1)\<close>, for \<open>x\<close> other than 0.\<close>

definition binade :: "rat \<Rightarrow> int" where
  "binade x =
     (if 1 \<le> \<bar>x\<bar> then int (bitlen \<lfloor>\<bar>x\<bar>\<rfloor>) - 1
      else - int (bitlen (\<lceil>1 / \<bar>x\<bar>\<rceil> - 1)))"

definition round_half_even :: "rat \<Rightarrow> int" where
  "round_half_even y =
     (let f = \<lfloor>y\<rfloor>; d = y - of_int f
      in if d < 1 / 2 then f else if 1 / 2 < d then f + 1 else if even f then f else f + 1)"

text \<open>The double nearest to a rational: the rounding every arithmetic operation applies.\<close>

definition double :: "rat \<Rightarrow> rat" where
  "double x =
     (if x = 0 then 0
      else let u = pow2 (binade x - 52) in of_int (round_half_even (x / u)) * u)"

datatype jsnum = Fin rat | PInf | NInf | NaN

fun js_neg :: "jsnum \<Rightarrow> jsnum" where
  "js_neg (Fin a) = Fin (- a)"
| "js_neg PInf = NInf"
| "js_neg NInf = PInf"
| "js_neg NaN = NaN"

fun js_add :: "jsnum \<Rightarrow> jsnum \<Rightarrow> jsnum" where
  "js_add (Fin a) (Fin b) = Fin (double (a + b))"
| "js_add NaN y = NaN"
| "js_add x NaN = NaN"
| "js_add PInf NInf = NaN"
| "js_add NInf PInf = NaN"
| "js_add PInf y = PInf"
| "js_add x PInf = PInf"
| "js_add NInf y = NInf"
| "js_add x NInf = NInf"

definition js_sub :: "jsnum \<Rightarrow> jsnum \<Rightarrow> jsnum" where
  "js_sub x y = js_add x (js_neg y)"

fun js_sign :: "jsnum \<Rightarrow> int" where
  "js_sign (Fin a) = (if a = 0 then 0 else if 0 < a then 1 else - 1)"
| "js_sign PInf = 1"
| "js_sign NInf = - 1"
| "js_sign NaN = 0"

fun js_mul :: "jsnum \<Rightarrow> jsnum \<Rightarrow> jsnum" where
  "js_mul (Fin a) (Fin b) = Fin (double (a * b))"
| "js_mul x y =
     (let s = js_sign x * js_sign y
      in if s = 0 then NaN else if 0 < s then PInf else NInf)"

fun js_div :: "jsnum \<Rightarrow> jsnum \<Rightarrow> jsnum" where
  "js_div (Fin a) (Fin b) =
     (if b \<noteq> 0 then Fin (double (a / b))
      else if a = 0 then NaN else if 0 < a then PInf else NInf)"
| "js_div NaN y = NaN"
| "js_div x NaN = NaN"
| "js_div (Fin a) y = Fin 0"
| "js_div x (Fin b) = (if 0 \<le> b then x else js_neg x)"
| "js_div x y = NaN"

fun js_lt :: "jsnum \<Rightarrow> jsnum \<Rightarrow> bool" where
  "js_lt (Fin a) (Fin b) = (a < b)"
| "js_lt NaN y = False"
| "js_lt x NaN = False"
| "js_lt x NInf = False"
| "js_lt PInf y = False"
| "js_lt x y = True"

definition js_gt :: "jsnum \<Rightarrow> jsnum \<Rightarrow> bool" where
  "js_gt x y = js_lt y x"

text \<open>
  \<^verbatim>\<open>Math.round\<close>: the nearest integer, a tie going up. The result is exact: it is an
  integer of no more digits than its argument.
\<close>

fun js_round :: "jsnum \<Rightarrow> jsnum" where
  "js_round (Fin a) = Fin (of_int \<lfloor>a + 1 / 2\<rfloor>)"
| "js_round x = x"

text \<open>\<^verbatim>\<open>Math.min\<close> of two numbers.\<close>

definition js_min :: "jsnum \<Rightarrow> jsnum \<Rightarrow> jsnum" where
  "js_min x y = (if x = NaN \<or> y = NaN then NaN else if js_lt y x then y else x)"

text \<open>\<^verbatim>\<open>x || d\<close> on numbers: the falsy numbers are zero and NaN.\<close>

definition js_or :: "jsnum \<Rightarrow> jsnum \<Rightarrow> jsnum" where
  "js_or x d = (if x = NaN \<or> x = Fin 0 then d else x)"

text \<open>A decimal literal of the source denotes the double nearest to it.\<close>

definition lit :: "rat \<Rightarrow> jsnum" where
  "lit q = Fin (double q)"

fun is_finite :: "jsnum \<Rightarrow> bool" where
  "is_finite (Fin a) = True"
| "is_finite x = False"

subsection \<open>Formatting with one decimal\<close>

text \<open>
  The text of a number. \<open>Decimal\<close> carries the characters \<^verbatim>\<open>toFixed\<close> produces;
  \<open>Plain x\<close> stands for the default text of \<open>x\<close> (\<^verbatim>\<open>NaN\<close>, \<^verbatim>\<open>Infinity\<close>, or the
  exponent notation of a magnitude of \<open>10 ^ 21\<close> or more), which is not spelled out.
\<close>

datatype numtext = Decimal string | Plain jsnum

definition digit_char :: "int \<Rightarrow> char" where
  "digit_char d = ''0123456789'' ! nat d"

function digits :: "int \<Rightarrow> string" where
  "digits n = (if n < 10 then [digit_char n] else digits (n div 10) @ [digit_char (n mod 10)])"
  by pat_completeness auto
termination
  by (relation "measure nat") auto

declare digits.simps [simp del]

text \<open>
  \<^verbatim>\<open>x.toFixed(1)\<close>: the integer \<open>n\<close> with \<open>n / 10\<close> nearest to \<open>|x|\<close>, the larger one at a
  tie, printed with its last digit after the point, and a minus sign when \<open>x\<close> is negative.
\<close>

fun toFixed1 :: "jsnum \<Rightarrow> numtext" where
  "toFixed1 (Fin a) =
     (if 10 ^ 21 \<le> \<bar>a\<bar> then Plain (Fin a)
      else let n = \<lfloor>\<bar>a\<bar> * 10 + 1 / 2\<rfloor>
           in Decimal ((if a < 0 then ''-'' else []) @ digits (n div 10) @ ''.'' @ digits (n mod 10)))"
| "toFixed1 x = Plain x"

section \<open>Mood entries\<close>

text \<open>
  \<^verbatim>\<open>interface MoodEntry\<close>. The four measures are finite doubles (they arrive as JSON
  numbers; the form sets them to whole numbers from 0 to 10); \<open>timestamp\<close> is a valid time
  value in milliseconds since the epoch.
\<close>

record MoodEntry =
  entry_id :: string
  date :: string
  timestamp :: int
  mood :: rat
  energy :: rat
  anxiety :: rat
  sleep :: rat
  exercise :: bool
  social :: bool
  meditation :: bool
  entry_notes :: string
  symptoms :: "string list"

text \<open>\<^verbatim>\<open>xs.reduce((sum, e) => sum + f(e), 0)\<close>\<close>

definition reduce_sum :: "('a \<Rightarrow> rat) \<Rightarrow> 'a list \<Rightarrow> jsnum" where
  "reduce_sum f xs = foldl (\<lambda>sum e. js_add sum (Fin (f e))) (Fin 0) xs"

text \<open>\<^verbatim>\<open>xs.length\<close> as a number.\<close>

definition js_length :: "'a list \<Rightarrow> jsnum" where
  "js_length xs = Fin (of_nat (length xs))"

definition day_ms :: int where
  "day_ms = 24 * 60 * 60 * 1000"

text \<open>
  \<^verbatim>\<open>new Date(t).toISOString().split('T')[0]\<close> is the UTC calendar date of \<open>t\<close>. The
  source only compares two such strings for equality, and the date string is an injective
  function of the number of whole days since the epoch, so the date is represented by that
  day number.
\<close>

definition iso_date :: "int \<Rightarrow> int" where
  "iso_date t = t div day_ms"

section \<open>Statistics\<close>

text \<open>
  The object returned by the \<^verbatim>\<open>stats\<close> memo: the four averages and \<open>moodChange\<close>
  are the texts \<^verbatim>\<open>toFixed(1)\<close> makes of the constants of the same names, the wellness
  score is a number. The counts and the streak are array lengths and a counter, hence
  natural numbers.
\<close>

record Stats =
  avgMood :: numtext
  avgEnergy :: numtext
  avgAnxiety :: numtext
  avgSleep :: numtext
  exerciseCount :: nat
  socialCount :: nat
  meditationCount :: nat
  currentStreak :: nat
  wellnessScore :: jsnum
  moodChange :: numtext
  totalEntries :: nat
  last7Days :: nat
  last30Days :: nat

text \<open>
  The streak loop: \<open>i\<close> is the loop index, \<open>cur\<close> the counter \<^verbatim>\<open>currentStreak\<close>, the
  list the entries \<^verbatim>\<open>sortedEntries[i..]\<close>.
\<close>

fun streak_loop :: "int \<Rightarrow> nat \<Rightarrow> nat \<Rightarrow> MoodEntry list \<Rightarrow> nat" where
  "streak_loop now i cur [] = cur"
| "streak_loop now i cur (e # es) =
     (if iso_date (timestamp e) = iso_date (now - int i * day_ms)
      then streak_loop now (Suc i) (Suc cur) es
      else cur)"

text \<open>
  \<^verbatim>\<open>[...moodEntries].sort((a, b) => b.timestamp - a.timestamp)\<close>: a stable sort, newest
  first.
\<close>

definition sortedEntries :: "MoodEntry list \<Rightarrow> MoodEntry list" where
  "sortedEntries moodEntries = sort_key (\<lambda>e. - timestamp e) moodEntries"

definition streak :: "int \<Rightarrow> MoodEntry list \<Rightarrow> nat" where
  "streak now moodEntries = streak_loop now 0 0 (sortedEntries moodEntries)"

text \<open>
  The \<^verbatim>\<open>stats\<close> memo. \<open>now\<close> is the value of \<^verbatim>\<open>Date.now()\<close>, taken to be the same
  at every read during one evaluation; \<open>None\<close> is \<^verbatim>\<open>null\<close>.
\<close>

definition stats :: "int \<Rightarrow> MoodEntry list \<Rightarrow> Stats option" where
  "stats now moodEntries =
    (if length moodEntries = 0 then None
     else
       let l7 = filter (\<lambda>e. now - timestamp e < 7 * day_ms) moodEntries;
           l30 = filter (\<lambda>e. now - timestamp e < 30 * day_ms) moodEntries;
           aMood = js_or (js_div (reduce_sum mood l7) (js_length l7)) (Fin 0);
           aEnergy = js_or (js_div (reduce_sum energy l7) (js_length l7)) (Fin 0);
           aAnxiety = js_or (js_div (reduce_sum anxiety l7) (js_length l7)) (Fin 0);
           aSleep = js_or (js_div (reduce_sum sleep l7) (js_length l7)) (Fin 0);
           exCount = length (filter exercise l7);
           soCount = length (filter social l7);
           meCount = length (filter meditation l7);
           score = js_round
             (js_mul
               (js_add
                 (js_add
                   (js_add
                     (js_add
                       (js_add (js_mul aMood (lit (3 / 10))) (js_mul aEnergy (lit (2 / 10))))
                       (js_mul (js_sub (Fin 10) aAnxiety) (lit (2 / 10))))
                     (js_mul aSleep (lit (15 / 100))))
                   (js_mul (js_mul (js_div (Fin (of_nat exCount)) (Fin 7)) (Fin 10)) (lit (1 / 10))))
                 (js_mul (js_mul (js_div (Fin (of_nat soCount)) (Fin 7)) (Fin 10)) (lit (5 / 100))))
               (Fin 10));
           prevWeek = filter (\<lambda>e. timestamp e < now - 7 * day_ms \<and> timestamp e > now - 14 * day_ms)
                        moodEntries;
           prevWeekAvgMood = js_or (js_div (reduce_sum mood prevWeek) (js_length prevWeek)) (Fin 0)
       in Some \<lparr> avgMood = toFixed1 aMood, avgEnergy = toFixed1 aEnergy,
                 avgAnxiety = toFixed1 aAnxiety, avgSleep = toFixed1 aSleep,
                 exerciseCount = exCount, socialCount = soCount, meditationCount = meCount,
                 currentStreak = streak now moodEntries,
                 wellnessScore = score,
                 moodChange = toFixed1 (js_sub aMood prevWeekAvgMood),
                 totalEntries = length moodEntries,
                 last7Days = length l7, last30Days = length l30 \<rparr>)"

section \<open>Pattern detection\<close>

text \<open>
  \<^verbatim>\<open>interface Pattern\<close>. The \<^verbatim>\<open>description\<close> is a display sentence built with
  \<^verbatim>\<open>toFixed(1)\<close> and is left out; \<open>icon\<close> is the icon component the source attaches.
\<close>

datatype PatternType = Trigger | Booster | Time | Day

datatype Icon = Dumbbell | Users | Moon | Calendar | Brain

record Pattern =
  ptype :: PatternType
  title :: string
  confidence :: jsnum
  icon :: Icon

definition weekday_names :: "string list" where
  "weekday_names =
     [''Sunday'', ''Monday'', ''Tuesday'', ''Wednesday'', ''Thursday'', ''Friday'', ''Saturday'']"

text \<open>
  \<^verbatim>\<open>new Date(t).toLocaleDateString('en-US', { weekday: 'long' })\<close>: the weekday of \<open>t\<close> in
  the local time zone. \<open>tz t\<close> is the offset of local time from UTC at the instant \<open>t\<close>, in
  milliseconds; it belongs to the environment and is a parameter. Day 0 of the epoch was a
  Thursday.
\<close>

definition weekday_long :: "(int \<Rightarrow> int) \<Rightarrow> int \<Rightarrow> string" where
  "weekday_long tz t = weekday_names ! nat (((t + tz t) div day_ms + 4) mod 7)"

text \<open>
  \<^verbatim>\<open>if (!dayMoods[day]) dayMoods[day] = []; dayMoods[day].push(m)\<close> on an object whose
  keys keep their insertion order.
\<close>

fun push_mood :: "string \<Rightarrow> rat \<Rightarrow> (string \<times> rat list) list \<Rightarrow> (string \<times> rat list) list" where
  "push_mood d m [] = [(d, [m])]"
| "push_mood d m ((k, ms) # rest) =
     (if k = d then (k, ms @ [m]) # rest else (k, ms) # push_mood d m rest)"

definition dayMoods :: "(int \<Rightarrow> int) \<Rightarrow> MoodEntry list \<Rightarrow> (string \<times> rat list) list" where
  "dayMoods tz moodEntries =
     foldl (\<lambda>dm entry. push_mood (weekday_long tz (timestamp entry)) (mood entry) dm) [] moodEntries"

record DayAverage =
  day :: string
  avg :: jsnum

definition dayAverages :: "(int \<Rightarrow> int) \<Rightarrow> MoodEntry list \<Rightarrow> DayAverage list" where
  "dayAverages tz moodEntries =
     map (\<lambda>(d, moods). \<lparr> day = d, avg = js_div (reduce_sum (\<lambda>m. m) moods) (js_length moods) \<rparr>)
       (dayMoods tz moodEntries)"

text \<open>
  \<^verbatim>\<open>das.reduce((best, curr) => curr.avg > best.avg ? curr : best, das[0])\<close>; on an empty
  array the initial value \<^verbatim>\<open>das[0]\<close> is \<^verbatim>\<open>undefined\<close> and is returned as it is.
\<close>

definition bestDay :: "DayAverage list \<Rightarrow> DayAverage option" where
  "bestDay das =
     (case das of [] \<Rightarrow> None
      | d0 # _ \<Rightarrow> Some (foldl (\<lambda>best curr. if js_gt (avg curr) (avg best) then curr else best) d0 das))"

definition worstDay :: "DayAverage list \<Rightarrow> DayAverage option" where
  "worstDay das =
     (case das of [] \<Rightarrow> None
      | d0 # _ \<Rightarrow> Some (foldl (\<lambda>worst curr. if js_lt (avg curr) (avg worst) then curr else worst) d0 das))"

text \<open>
  Each heuristic takes the array \<^verbatim>\<open>detectedPatterns\<close> built so far and returns it,
  with its pattern pushed at the end when the heuristic fires.
\<close>

definition exercise_step :: "MoodEntry list \<Rightarrow> Pattern list \<Rightarrow> Pattern list" where
  "exercise_step moodEntries detected =
    (let withExercise = filter exercise moodEntries;
         withoutExercise = filter (\<lambda>e. \<not> exercise e) moodEntries
     in if length withExercise > 3 \<and> length withoutExercise > 3 then
          let avgMoodWithEx = js_div (reduce_sum mood withExercise) (js_length withExercise);
              avgMoodWithoutEx = js_div (reduce_sum mood withoutExercise) (js_length withoutExercise)
          in if js_gt (js_sub avgMoodWithEx avgMoodWithoutEx) (Fin 1) then
               detected @ [\<lparr> ptype = Booster, title = ''Exercise Boosts Your Mood'',
                 confidence = js_min (Fin 95)
                   (js_round (js_mul (js_sub avgMoodWithEx avgMoodWithoutEx) (Fin 15))),
                 icon = Dumbbell \<rparr>]
             else detected
        else detected)"

definition social_step :: "MoodEntry list \<Rightarrow> Pattern list \<Rightarrow> Pattern list" where
  "social_step moodEntries detected =
    (let withSocial = filter social moodEntries;
         withoutSocial = filter (\<lambda>e. \<not> social e) moodEntries
     in if length withSocial > 3 \<and> length withoutSocial > 3 then
          let avgMoodWithSocial = js_div (reduce_sum mood withSocial) (js_length withSocial);
              avgMoodWithoutSocial = js_div (reduce_sum mood withoutSocial) (js_length withoutSocial)
          in if js_gt (js_sub avgMoodWithSocial avgMoodWithoutSocial) (lit (8 / 10)) then
               detected @ [\<lparr> ptype = Booster, title = ''Social Connection Helps'',
                 confidence = js_min (Fin 90)
                   (js_round (js_mul (js_sub avgMoodWithSocial avgMoodWithoutSocial) (Fin 12))),
                 icon = Users \<rparr>]
             else detected
        else detected)"

definition sleep_step :: "MoodEntry list \<Rightarrow> Pattern list \<Rightarrow> Pattern list" where
  "sleep_step moodEntries detected =
    (let goodSleep = filter (\<lambda>e. sleep e \<ge> 7) moodEntries;
         poorSleep = filter (\<lambda>e. sleep e < 5) moodEntries
     in if length goodSleep > 2 \<and> length poorSleep > 2 then
          let avgMoodGoodSleep = js_div (reduce_sum mood goodSleep) (js_length goodSleep);
              avgMoodPoorSleep = js_div (reduce_sum mood poorSleep) (js_length poorSleep)
          in if js_gt (js_sub avgMoodGoodSleep avgMoodPoorSleep) (Fin 1) then
               detected @ [\<lparr> ptype = Trigger, title = ''Poor Sleep Affects Your Mood'',
                 confidence = js_min (Fin 95)
                   (js_round (js_mul (js_sub avgMoodGoodSleep avgMoodPoorSleep) (Fin 15))),
                 icon = Moon \<rparr>]
             else detected
        else detected)"

definition day_step :: "(int \<Rightarrow> int) \<Rightarrow> MoodEntry list \<Rightarrow> Pattern list \<Rightarrow> Pattern list" where
  "day_step tz moodEntries detected =
    (let das = dayAverages tz moodEntries
     in case (bestDay das, worstDay das) of
          (Some best, Some worst) \<Rightarrow>
            if length das \<ge> 5 \<and> js_gt (js_sub (avg best) (avg worst)) (lit (15 / 10)) then
              detected @ [\<lparr> ptype = Day, title = day worst @ ''s Are Harder for You'',
                confidence = Fin 75, icon = Calendar \<rparr>]
            else detected
        | _ \<Rightarrow> detected)"

definition meditation_step :: "MoodEntry list \<Rightarrow> Pattern list \<Rightarrow> Pattern list" where
  "meditation_step moodEntries detected =
    (let withMeditation = filter meditation moodEntries
     in if length withMeditation > 3 then
          let avgAnxietyWithMed = js_div (reduce_sum anxiety withMeditation) (js_length withMeditation);
              avgAnxietyOverall = js_div (reduce_sum anxiety moodEntries) (js_length moodEntries)
          in if js_gt (js_sub avgAnxietyOverall avgAnxietyWithMed) (Fin 1) then
               detected @ [\<lparr> ptype = Booster, title = ''Meditation Reduces Anxiety'',
                 confidence = Fin 85, icon = Brain \<rparr>]
             else detected
        else detected)"

text \<open>The \<^verbatim>\<open>patterns\<close> memo.\<close>

definition patterns :: "(int \<Rightarrow> int) \<Rightarrow> MoodEntry list \<Rightarrow> Pattern list" where
  "patterns tz moodEntries =
    (if length moodEntries < 7 then []
     else meditation_step moodEntries
            (day_step tz moodEntries
              (sleep_step moodEntries
                (social_step moodEntries
                  (exercise_step moodEntries [])))))"

section \<open>Chart data\<close>

record TrendPoint =
  point_date :: string
  point_mood :: rat
  point_energy :: rat
  point_anxiety :: rat
  point_sleep :: rat

text \<open>
  The \<^verbatim>\<open>moodTrendData\<close> memo. \<open>short_date\<close> stands for
  \<^verbatim>\<open>toLocaleDateString('en-US', { month: 'short', day: 'numeric' })\<close>, which belongs to the
  environment and is a parameter.
\<close>

definition moodTrendData :: "(int \<Rightarrow> string) \<Rightarrow> MoodEntry list \<Rightarrow> TrendPoint list" where
  "moodTrendData short_date moodEntries =
     map (\<lambda>entry. \<lparr> point_date = short_date (timestamp entry), point_mood = mood entry,
                     point_energy = energy entry, point_anxiety = anxiety entry,
                     point_sleep = sleep entry \<rparr>)
       (rev (take 30 moodEntries))"

section \<open>Notions of the specification\<close>

text \<open>
  The definitions of this section follow the wording of the specification, not the source;
  the theorems compare them with the model of the source above.
\<close>

text \<open>The arithmetic mean of a list of numbers, and the mean with the empty list sent to 0.\<close>

definition mean :: "rat list \<Rightarrow> rat" where
  "mean xs = sum_list xs / of_nat (length xs)"

definition mean_or_zero :: "rat list \<Rightarrow> rat" where
  "mean_or_zero xs = (if xs = [] then 0 else mean xs)"

text \<open>
  The same in double arithmetic: each operation rounds its result, the sum running through
  the list from left to right.
\<close>

definition dadd :: "rat \<Rightarrow> rat \<Rightarrow> rat" where
  "dadd a b = double (a + b)"

definition dsub :: "rat \<Rightarrow> rat \<Rightarrow> rat" where
  "dsub a b = double (a - b)"

definition dmul :: "rat \<Rightarrow> rat \<Rightarrow> rat" where
  "dmul a b = double (a * b)"

definition ddiv :: "rat \<Rightarrow> rat \<Rightarrow> rat" where
  "ddiv a b = double (a / b)"

definition dsum :: "rat list \<Rightarrow> rat" where
  "dsum xs = foldl dadd 0 xs"

definition dmean :: "rat list \<Rightarrow> rat" where
  "dmean xs = ddiv (dsum xs) (of_nat (length xs))"

definition dmean_or_zero :: "rat list \<Rightarrow> rat" where
  "dmean_or_zero xs = (if xs = [] then 0 else dmean xs)"

text \<open>The entries created less than \<open>n\<close> days before \<open>now\<close>.\<close>

definition within_days :: "int \<Rightarrow> int \<Rightarrow> MoodEntry list \<Rightarrow> MoodEntry list" where
  "within_days n now es = filter (\<lambda>e. now - timestamp e < n * day_ms) es"

text \<open>The wellness score as the specification writes it, in exact arithmetic.\<close>

definition wellness_formula :: "int \<Rightarrow> MoodEntry list \<Rightarrow> int" where
  "wellness_formula now es =
     (let week = within_days 7 now es
      in round ((mean_or_zero (map mood week) * (3 / 10)
               + mean_or_zero (map energy week) * (2 / 10)
               + (10 - mean_or_zero (map anxiety week)) * (2 / 10)
               + mean_or_zero (map sleep week) * (15 / 100)
               + (of_nat (length (filter exercise week)) / 7 * 10) * (1 / 10)
               + (of_nat (length (filter social week)) / 7 * 10) * (5 / 100)) * 10))"

text \<open>The same formula with every operation in double arithmetic, in the order written.\<close>

definition wellness_double :: "int \<Rightarrow> MoodEntry list \<Rightarrow> int" where
  "wellness_double now es =
     (let week = within_days 7 now es
      in round
        (dmul
          (dadd
            (dadd
              (dadd
                (dadd
                  (dadd (dmul (dmean_or_zero (map mood week)) (double (3 / 10)))
                        (dmul (dmean_or_zero (map energy week)) (double (2 / 10))))
                  (dmul (dsub 10 (dmean_or_zero (map anxiety week))) (double (2 / 10))))
                (dmul (dmean_or_zero (map sleep week)) (double (15 / 100))))
              (dmul (dmul (ddiv (of_nat (length (filter exercise week))) 7) 10) (double (1 / 10))))
            (dmul (dmul (ddiv (of_nat (length (filter social week))) 7) 10) (double (5 / 100))))
          10))"

text \<open>
  The week-over-week change as the specification writes it, the prior week being the
  creation times in the half-open interval from \<open>now - 14d\<close> (included) to \<open>now - 7d\<close>
  (excluded).
\<close>

definition mood_change_claimed :: "int \<Rightarrow> MoodEntry list \<Rightarrow> rat" where
  "mood_change_claimed now es =
     mean_or_zero (map mood (within_days 7 now es))
     - mean_or_zero (map mood
         (filter (\<lambda>e. now - 14 * day_ms \<le> timestamp e \<and> timestamp e < now - 7 * day_ms) es))"

text \<open>
  The week-over-week change in double arithmetic, the prior week being the creation times
  strictly between \<open>now - 14d\<close> and \<open>now - 7d\<close>.
\<close>

definition mood_change_double :: "int \<Rightarrow> MoodEntry list \<Rightarrow> rat" where
  "mood_change_double now es =
     dsub (dmean_or_zero (map mood (within_days 7 now es)))
       (dmean_or_zero (map mood
         (filter (\<lambda>e. now - 14 * day_ms < timestamp e \<and> timestamp e < now - 7 * day_ms) es)))"

text \<open>The range invariant of the data model: the four measures lie between 0 and 10.\<close>

definition in_range :: "MoodEntry \<Rightarrow> bool" where
  "in_range e =
     (0 \<le> mood e \<and> mood e \<le> 10 \<and> 0 \<le> energy e \<and> energy e \<le> 10
      \<and> 0 \<le> anxiety e \<and> anxiety e \<le> 10 \<and> 0 \<le> sleep e \<and> sleep e \<le> 10)"

text \<open>The moods the form produces: whole numbers from 0 to 10.\<close>

definition whole_moods :: "MoodEntry list \<Rightarrow> bool" where
  "whole_moods es = (\<forall>e \<in> set es. mood e \<in> of_nat ` {0..10})"

text \<open>
  The mean mood with exercise minus the mean mood without, in exact and in double
  arithmetic.
\<close>

definition exercise_mood_diff :: "MoodEntry list \<Rightarrow> rat" where
  "exercise_mood_diff es =
     mean (map mood (filter exercise es)) - mean (map mood (filter (\<lambda>e. \<not> exercise e) es))"

definition exercise_diff_double :: "MoodEntry list \<Rightarrow> rat" where
  "exercise_diff_double es =
     dsub (dmean (map mood (filter exercise es))) (dmean (map mood (filter (\<lambda>e. \<not> exercise e) es)))"

text \<open>
  The weekday of an entry, the set of weekdays a log represents, the mean mood of the
  entries of one weekday, and the best and the worst of these means, in exact and in double
  arithmetic.
\<close>

definition weekday_of :: "(int \<Rightarrow> int) \<Rightarrow> MoodEntry \<Rightarrow> string" where
  "weekday_of tz e = weekday_long tz (timestamp e)"

definition weekdays_of :: "(int \<Rightarrow> int) \<Rightarrow> MoodEntry list \<Rightarrow> string set" where
  "weekdays_of tz es = weekday_of tz ` set es"

definition day_mean :: "(int \<Rightarrow> int) \<Rightarrow> MoodEntry list \<Rightarrow> string \<Rightarrow> rat" where
  "day_mean tz es d = mean (map mood (filter (\<lambda>e. weekday_of tz e = d) es))"

definition best_mean :: "(int \<Rightarrow> int) \<Rightarrow> MoodEntry list \<Rightarrow> rat" where
  "best_mean tz es = Max (day_mean tz es ` weekdays_of tz es)"

definition worst_mean :: "(int \<Rightarrow> int) \<Rightarrow> MoodEntry list \<Rightarrow> rat" where
  "worst_mean tz es = Min (day_mean tz es ` weekdays_of tz es)"

definition day_dmean :: "(int \<Rightarrow> int) \<Rightarrow> MoodEntry list \<Rightarrow> string \<Rightarrow> rat" where
  "day_dmean tz es d = dmean (map mood (filter (\<lambda>e. weekday_of tz e = d) es))"

definition best_dmean :: "(int \<Rightarrow> int) \<Rightarrow> MoodEntry list \<Rightarrow> rat" where
  "best_dmean tz es = Max (day_dmean tz es ` weekdays_of tz es)"

definition worst_dmean :: "(int \<Rightarrow> int) \<Rightarrow> MoodEntry list \<Rightarrow> rat" where
  "worst_dmean tz es = Min (day_dmean tz es ` weekdays_of tz es)"

section \<open>An auxiliary notion\<close>

text \<open>
  The distinct elements of a list, in the order of their first occurrence: the keys of the
  table of moods by weekday.
\<close>

definition first_seen :: "'a list \<Rightarrow> 'a list" where
  "first_seen xs = rev (remdups (rev xs))"

section \<open>Sample logs\<close>

text \<open>
  An entry created at \<open>t\<close> with the given mood, energy, anxiety, sleep and activities; the
  fields the analytics never read are empty.
\<close>

definition entry_at :: "int \<Rightarrow> rat \<Rightarrow> rat \<Rightarrow> rat \<Rightarrow> rat \<Rightarrow> bool \<Rightarrow> bool \<Rightarrow> bool \<Rightarrow> MoodEntry" where
  "entry_at t m en a s ex so me =
     \<lparr> entry_id = [], date = [], timestamp = t, mood = m, energy = en, anxiety = a, sleep = s,
       exercise = ex, social = so, meditation = me, entry_notes = [], symptoms = [] \<rparr>"

text \<open>
  Noon of day 7 of the epoch, and eight entries on eight consecutive calendar days, all
  created less than 7 days before that instant and each at the best possible values.
\<close>

definition week_now :: int where
  "week_now = 7 * day_ms + 12 * 3600000"

definition full_week :: "MoodEntry list" where
  "full_week =
     map (\<lambda>k. entry_at (k * day_ms + 18 * 3600000) 10 10 0 10 True True False)
       [0, 1, 2, 3, 4, 5, 6]
     @ [entry_at (7 * day_ms + 9 * 3600000) 10 10 0 10 True True False]"

definition old_entry :: MoodEntry where
  "old_entry = entry_at (- 10 * day_ms) 6 5 4 7 True False True"

text \<open>One entry now and one created exactly 14 days before.\<close>

definition boundary_log :: "MoodEntry list" where
  "boundary_log = [entry_at 0 5 5 5 5 False False False,
                   entry_at (- 14 * day_ms) 8 5 5 5 False False False]"

definition two_weeks_log :: "MoodEntry list" where
  "two_weeks_log = [entry_at 0 5 5 5 5 False False False,
                    entry_at (- 10 * day_ms) 8 5 5 5 False False False]"

text \<open>An evaluation instant on day 2 of the epoch, two entries of that day, one of the day before.\<close>

definition streak_now :: int where
  "streak_now = 2 * day_ms + 5000"

definition today_entry :: MoodEntry where
  "today_entry = entry_at (2 * day_ms + 1000) 7 6 3 7 False False False"

definition second_today_entry :: MoodEntry where
  "second_today_entry = entry_at (2 * day_ms + 2000) 6 6 3 7 False False False"

definition yesterday_entry :: MoodEntry where
  "yesterday_entry = entry_at (day_ms + 1000) 5 6 3 7 False False False"

text \<open>Four exercise entries of mood 8 and four others of mood 5.\<close>

definition exercise_log :: "MoodEntry list" where
  "exercise_log =
     replicate 4 (entry_at 0 8 5 5 6 True False False)
     @ replicate 4 (entry_at 0 5 5 5 6 False False False)"

text \<open>Four exercise entries of mood 9 and four others of mood 2.\<close>

definition capped_log :: "MoodEntry list" where
  "capped_log =
     replicate 4 (entry_at 0 9 5 5 6 True False False)
     @ replicate 4 (entry_at 0 2 5 5 6 False False False)"

text \<open>
  Seven entries on three weekdays (Thursday, Friday, Saturday), and seven entries on the
  seven weekdays, Monday being the worst.
\<close>

definition few_days_log :: "MoodEntry list" where
  "few_days_log =
     [entry_at 0 9 5 5 6 False False False,
      entry_at day_ms 5 5 5 6 False False False,
      entry_at (2 * day_ms) 2 5 5 6 False False False,
      entry_at (7 * day_ms) 9 5 5 6 False False False,
      entry_at (8 * day_ms) 5 5 5 6 False False False,
      entry_at (9 * day_ms) 2 5 5 6 False False False,
      entry_at (14 * day_ms) 9 5 5 6 False False False]"

definition all_days_log :: "MoodEntry list" where
  "all_days_log =
     [entry_at 0 8 5 5 6 False False False,
      entry_at day_ms 7 5 5 6 False False False,
      entry_at (2 * day_ms) 8 5 5 6 False False False,
      entry_at (3 * day_ms) 9 5 5 6 False False False,
      entry_at (4 * day_ms) 3 5 5 6 False False False,
      entry_at (5 * day_ms) 7 5 5 6 False False False,
      entry_at (6 * day_ms) 8 5 5 6 False False False]"

text \<open>One entry whose exact score lies on a rounding tie.\<close>

definition tie_log :: "MoodEntry list" where
  "tie_log = [entry_at 0 0 0 5 9 False False False]"

text \<open>Three entries of this week, of moods 5, 6 and 6, and one of mood 5 of the week before.\<close>

definition thirds_log :: "MoodEntry list" where
  "thirds_log =
     [entry_at 0 5 5 5 5 False False False,
      entry_at 0 6 5 5 5 False False False,
      entry_at 0 6 5 5 5 False False False,
      entry_at (- 10 * day_ms) 5 5 5 5 False False False]"

text \<open>Exercise moods 9, 9, 9, 9, 8 against 8, 8, 8, 8, 7: the means differ by exactly 1.\<close>

definition near_tie_log :: "MoodEntry list" where
  "near_tie_log =
     map (\<lambda>m. entry_at 0 m 5 5 6 True False False) [9, 9, 9, 9, 8]
     @ map (\<lambda>m. entry_at 0 m 5 5 6 False False False) [8, 8, 8, 8, 7]"

section \<open>Auxiliary facts\<close>

subsection \<open>Sums and averages\<close>

lemma foldl_js_add:
  "foldl (\<lambda>sum e. js_add sum (Fin (f e))) (Fin a) xs = Fin (foldl dadd a (map f xs))"
  by (induction xs arbitrary: a) (simp_all add: dadd_def)

lemma reduce_sum_Fin: "reduce_sum f xs = Fin (dsum (map f xs))"
  unfolding reduce_sum_def dsum_def by (simp add: foldl_js_add)

lemma average_or_zero:
  "js_or (js_div (reduce_sum f xs) (js_length xs)) (Fin 0) = Fin (dmean_or_zero (map f xs))"
  by (simp add: reduce_sum_Fin js_length_def js_or_def dmean_or_zero_def dmean_def ddiv_def
      dsum_def)

lemma average_Fin:
  "xs \<noteq> [] \<Longrightarrow> js_div (reduce_sum f xs) (js_length xs) = Fin (dmean (map f xs))"
  by (simp add: reduce_sum_Fin js_length_def dmean_def ddiv_def)

lemma js_sub_Fin: "js_sub (Fin a) (Fin b) = Fin (dsub a b)"
  by (simp add: js_sub_def dsub_def)

lemma js_mul_Fin: "js_mul (Fin a) (Fin b) = Fin (dmul a b)"
  by (simp add: dmul_def)

lemma js_add_Fin: "js_add (Fin a) (Fin b) = Fin (dadd a b)"
  by (simp add: dadd_def)

lemma js_div_Fin: "b \<noteq> 0 \<Longrightarrow> js_div (Fin a) (Fin b) = Fin (ddiv a b)"
  by (simp add: ddiv_def)

subsection \<open>The snapshot in closed form\<close>

lemma stats_nonempty:
  assumes "es \<noteq> []"
  shows "stats now es = Some
    \<lparr> avgMood = toFixed1 (Fin (dmean_or_zero (map mood (within_days 7 now es)))),
      avgEnergy = toFixed1 (Fin (dmean_or_zero (map energy (within_days 7 now es)))),
      avgAnxiety = toFixed1 (Fin (dmean_or_zero (map anxiety (within_days 7 now es)))),
      avgSleep = toFixed1 (Fin (dmean_or_zero (map sleep (within_days 7 now es)))),
      exerciseCount = length (filter exercise (within_days 7 now es)),
      socialCount = length (filter social (within_days 7 now es)),
      meditationCount = length (filter meditation (within_days 7 now es)),
      currentStreak = streak now es,
      wellnessScore = Fin (of_int (wellness_double now es)),
      moodChange = toFixed1 (Fin (dsub (dmean_or_zero (map mood (within_days 7 now es)))
        (dmean_or_zero (map mood
            (filter (\<lambda>e. timestamp e < now - 7 * day_ms \<and> timestamp e > now - 14 * day_ms) es))))),
      totalEntries = length es,
      last7Days = length (within_days 7 now es),
      last30Days = length (within_days 30 now es) \<rparr>"
  using assms
  by (simp add: stats_def Let_def average_or_zero lit_def js_sub_def within_days_def
      wellness_double_def round_def dadd_def dsub_def dmul_def ddiv_def)

lemma within_days_meditation:
  "within_days n now (map (\<lambda>e. e\<lparr>meditation := f e\<rparr>) es)
     = map (\<lambda>e. e\<lparr>meditation := f e\<rparr>) (within_days n now es)"
  by (simp add: within_days_def filter_map comp_def)

lemma wellness_double_meditation:
  "wellness_double now (map (\<lambda>e. e\<lparr>meditation := f e\<rparr>) es) = wellness_double now es"
  by (simp add: wellness_double_def Let_def within_days_meditation filter_map comp_def)

subsection \<open>Rounding to a double\<close>

lemma pow2_powi: "pow2 e = 2 powi e"
  by (simp add: pow2_def power_int_def inverse_eq_divide power_one_over)

lemma bitlen_pos: "0 < k \<Longrightarrow> 0 < bitlen k"
  by (subst bitlen.simps) simp

lemma bitlen_bounds: "0 < k \<Longrightarrow> 2 ^ (bitlen k - 1) \<le> k \<and> k < 2 ^ bitlen k"
proof (induction k rule: bitlen.induct)
  case (1 n)
  show ?case
  proof (cases "n div 2 = 0")
    case True
    with "1.prems" have "n = 1" by presburger
    then show ?thesis
      by (subst (1 2) bitlen.simps, subst (1 2) bitlen.simps) simp
  next
    case False
    with "1.prems" have pos: "0 < n div 2" by presburger
    have nle: "\<not> n \<le> 0" using "1.prems" by simp
    from "1.IH" [OF nle pos]
    have ih: "2 ^ (bitlen (n div 2) - 1) \<le> n div 2" "n div 2 < 2 ^ bitlen (n div 2)"
      by simp_all
    have b: "bitlen n = Suc (bitlen (n div 2))"
      using nle by (subst bitlen.simps) simp
    obtain c where c: "bitlen (n div 2) = Suc c"
      using bitlen_pos [OF pos] by (cases "bitlen (n div 2)") auto
    have "2 * (n div 2) \<le> n" "n \<le> 2 * (n div 2) + 1" by presburger+
    then show ?thesis
      using ih by (simp add: b c)
  qed
qed

lemma binade_bounds:
  assumes "x \<noteq> 0"
  shows "2 powi (binade x) \<le> \<bar>x\<bar>" and "\<bar>x\<bar> < 2 powi (binade x + 1)"
proof -
  have "2 powi (binade x) \<le> \<bar>x\<bar> \<and> \<bar>x\<bar> < 2 powi (binade x + 1)"
  proof (cases "1 \<le> \<bar>x\<bar>")
    case True
    define k where "k = \<lfloor>\<bar>x\<bar>\<rfloor>"
    have kpos: "0 < k" using True by (simp add: k_def)
    obtain c where c: "bitlen k = Suc c"
      using bitlen_pos [OF kpos] by (cases "bitlen k") auto
    have e: "binade x = int c" using True by (simp add: binade_def k_def [symmetric] c)
    have ib: "(2::int) ^ c \<le> k" "k + 1 \<le> 2 ^ Suc c"
      using bitlen_bounds [OF kpos] by (simp_all add: c)
    have "(2::rat) ^ c = of_int (2 ^ c)" by simp
    also have "\<dots> \<le> of_int k" using ib(1) by (simp only: of_int_le_iff)
    also have "\<dots> \<le> \<bar>x\<bar>" unfolding k_def by linarith
    finally have lo: "(2::rat) ^ c \<le> \<bar>x\<bar>" .
    have "\<bar>x\<bar> < of_int (k + 1)" unfolding k_def by linarith
    also have "\<dots> \<le> of_int (2 ^ Suc c)" using ib(2) by (simp only: of_int_le_iff)
    also have "\<dots> = (2::rat) ^ Suc c" by simp
    finally have hi: "\<bar>x\<bar> < (2::rat) ^ Suc c" .
    from lo hi have "(2::rat) ^ c \<le> \<bar>x\<bar>" "\<bar>x\<bar> < 2 ^ Suc c" .
    then show ?thesis
      by (simp add: e power_int_add flip: power_int_of_nat)
  next
    case False
    define y where "y = 1 / \<bar>x\<bar>"
    have xpos: "0 < \<bar>x\<bar>" using assms by simp
    have y1: "1 < y" using False xpos by (simp add: y_def)
    define k where "k = \<lceil>y\<rceil> - 1"
    have kpos: "0 < k" using y1 unfolding k_def by linarith
    have ky: "of_int k < y" "y \<le> of_int k + 1" unfolding k_def by linarith+
    obtain c where c: "bitlen k = Suc c"
      using bitlen_pos [OF kpos] by (cases "bitlen k") auto
    have e: "binade x = - int (Suc c)"
      using False by (simp add: binade_def y_def [symmetric] k_def [symmetric] c)
    have ib: "(2::int) ^ c \<le> k" "k + 1 \<le> 2 ^ Suc c"
      using bitlen_bounds [OF kpos] by (simp_all add: c)
    have "(2::rat) ^ c = of_int (2 ^ c)" by simp
    also have "\<dots> \<le> of_int k" using ib(1) by (simp only: of_int_le_iff)
    also have "\<dots> < y" by (rule ky(1))
    finally have lo: "(2::rat) ^ c < y" .
    have "y \<le> of_int (k + 1)" using ky(2) by simp
    also have "\<dots> \<le> of_int (2 ^ Suc c)" using ib(2) by (simp only: of_int_le_iff)
    also have "\<dots> = (2::rat) ^ Suc c" by simp
    finally have hi: "y \<le> (2::rat) ^ Suc c" .
    from lo hi have "(2::rat) ^ c < y" "y \<le> 2 ^ Suc c" .
    then have "1 / (2::rat) ^ Suc c \<le> 1 / y" "1 / y < 1 / 2 ^ c"
      using y1 by (simp_all add: frac_le frac_less2)
    moreover have "1 / y = \<bar>x\<bar>" by (simp add: y_def)
    ultimately have "1 / (2::rat) ^ Suc c \<le> \<bar>x\<bar>" "\<bar>x\<bar> < 1 / 2 ^ c" by simp_all
    moreover have "(2::rat) powi (- int (Suc c)) = 1 / 2 ^ Suc c"
      by (simp add: power_int_minus_divide del: of_nat_Suc power_Suc)
    moreover have "(2::rat) powi (- int (Suc c) + 1) = 1 / 2 ^ c"
      by (simp add: power_int_minus_divide)
    ultimately show ?thesis by (simp only: e)
  qed
  then show "2 powi (binade x) \<le> \<bar>x\<bar>" and "\<bar>x\<bar> < 2 powi (binade x + 1)" by simp_all
qed


lemma round_half_even_cases:
  "round_half_even q = \<lfloor>q\<rfloor> \<and> q - of_int \<lfloor>q\<rfloor> \<le> 1 / 2
   \<or> round_half_even q = \<lfloor>q\<rfloor> + 1 \<and> 1 / 2 \<le> q - of_int \<lfloor>q\<rfloor>"
  by (auto simp: round_half_even_def Let_def)

lemma round_half_even_near: "\<bar>of_int (round_half_even q) - q\<bar> \<le> 1 / 2"
proof -
  have "of_int \<lfloor>q\<rfloor> \<le> q" "q < of_int \<lfloor>q\<rfloor> + 1" by linarith+
  then show ?thesis
    using round_half_even_cases [of q] by (elim disjE conjE) (simp_all add: abs_le_iff)
qed

lemma round_half_even_nearest: "\<bar>of_int (round_half_even q) - q\<bar> \<le> \<bar>of_int m - q\<bar>"
proof (cases "m = round_half_even q")
  case True
  then show ?thesis by simp
next
  case False
  then have "1 \<le> \<bar>m - round_half_even q\<bar>" by linarith
  then have "(1::rat) \<le> of_int \<bar>m - round_half_even q\<bar>"
    by (simp only: of_int_1_le_iff)
  then have "(1::rat) \<le> \<bar>of_int m - of_int (round_half_even q)\<bar>" by simp
  with round_half_even_near [of q] show ?thesis by linarith
qed

lemma round_half_even_le: "q \<le> of_int m \<Longrightarrow> round_half_even q \<le> m"
proof -
  assume a: "q \<le> of_int m"
  then have "\<lfloor>q\<rfloor> \<le> m" by (simp add: floor_le_iff)
  show ?thesis
  proof (cases "q = of_int \<lfloor>q\<rfloor>")
    case True
    then have "round_half_even q = \<lfloor>q\<rfloor>"
      using round_half_even_cases [of q] by auto
    with \<open>\<lfloor>q\<rfloor> \<le> m\<close> show ?thesis by simp
  next
    case False
    moreover have "of_int \<lfloor>q\<rfloor> \<le> q" by linarith
    ultimately have "of_int \<lfloor>q\<rfloor> < q" by linarith
    with a have "(of_int \<lfloor>q\<rfloor> :: rat) < of_int m" by linarith
    then have "\<lfloor>q\<rfloor> < m" by (simp only: of_int_less_iff)
    then show ?thesis using round_half_even_cases [of q] by auto
  qed
qed

lemma round_half_even_ge: "of_int m \<le> q \<Longrightarrow> m \<le> round_half_even q"
proof -
  assume "of_int m \<le> q"
  then have "m \<le> \<lfloor>q\<rfloor>" by (simp add: le_floor_iff)
  then show ?thesis using round_half_even_cases [of q] by auto
qed

lemma double_eq:
  "x \<noteq> 0 \<Longrightarrow> double x = of_int (round_half_even (x / 2 powi (binade x - 52))) * 2 powi (binade x - 52)"
  by (simp add: double_def Let_def pow2_powi)

lemma double_zero: "double 0 = 0"
  by (simp add: double_def)

text \<open>The double of \<open>x\<close> is at least as near to \<open>x\<close> as any number of 53 bits.\<close>

lemma double_nearest:
  assumes k: "\<bar>k\<bar> \<le> 2 ^ 53"
  shows "\<bar>double x - x\<bar> \<le> \<bar>of_int k * 2 powi j - x\<bar>"
proof (cases "x = 0")
  case True
  then show ?thesis by (simp add: double_zero)
next
  case False
  define e where "e = binade x"
  define u :: rat where "u = 2 powi (e - 52)"
  define q where "q = x / u"
  have upos: "0 < u" by (simp add: u_def)
  have xq: "q * u = x" using upos by (simp add: q_def)
  have d: "double x = of_int (round_half_even q) * u"
    using False by (simp add: double_eq e_def u_def q_def)
  have near: "\<bar>double x - x\<bar> \<le> \<bar>of_int m * u - x\<bar>" for m
  proof -
    have "double x - x = (of_int (round_half_even q) - q) * u"
      by (simp add: d left_diff_distrib xq)
    then have "\<bar>double x - x\<bar> = \<bar>of_int (round_half_even q) - q\<bar> * u"
      using upos by (simp add: abs_mult)
    also have "\<dots> \<le> \<bar>of_int m - q\<bar> * u"
      using round_half_even_nearest [of q m] upos by (simp add: mult_right_mono)
    also have "\<dots> = \<bar>(of_int m - q) * u\<bar>"
      using upos by (simp add: abs_mult)
    also have "(of_int m - q) * u = of_int m * u - x"
      by (simp add: left_diff_distrib xq)
    finally show ?thesis .
  qed
  have lo: "2 powi e \<le> \<bar>x\<bar>" using binade_bounds(1) [OF False] by (simp add: e_def)
  show ?thesis
  proof (cases "e - 52 \<le> j")
    case True
    define t where "t = nat (j - (e - 52))"
    have "(2::rat) powi j = 2 powi (int t + (e - 52))" using True by (simp add: t_def)
    also have "\<dots> = 2 ^ t * u" by (simp add: power_int_add u_def)
    finally have "of_int k * 2 powi j = of_int (k * 2 ^ t) * u" by simp
    then show ?thesis using near [of "k * 2 ^ t"] by (simp only:)
  next
    case False
    then have "j + 53 \<le> e" by simp
    have "\<bar>of_int k * (2::rat) powi j\<bar> = of_int \<bar>k\<bar> * 2 powi j"
      by (simp add: abs_mult)
    also have "\<dots> \<le> of_int (2 ^ 53) * 2 powi j"
      using k by (intro mult_right_mono) (simp_all only: of_int_le_iff, simp)
    also have "\<dots> = 2 powi (j + 53)" by (simp add: power_int_add)
    also have "\<dots> \<le> 2 powi e" using \<open>j + 53 \<le> e\<close> by (intro power_int_increasing) simp_all
    finally have small: "\<bar>of_int k * (2::rat) powi j\<bar> \<le> 2 powi e" .
    have pe: "(2::rat) powi e = 2 ^ 52 * u"
    proof -
      have "(2::rat) powi e = 2 powi (52 + (e - 52))"
        by (rule arg_cong [where f = "\<lambda>e. 2 powi e"]) simp
      also have "\<dots> = 2 ^ 52 * u" unfolding u_def by (subst power_int_add) simp_all
      finally show ?thesis .
    qed
    have "\<bar>double x - x\<bar> \<le> \<bar>x\<bar> - 2 powi e"
    proof (cases "0 < x")
      case True
      have "\<bar>double x - x\<bar> \<le> \<bar>of_int (2 ^ 52) * u - x\<bar>" by (rule near)
      also have "\<dots> = \<bar>2 powi e - x\<bar>" by (simp add: pe)
      also have "\<dots> = \<bar>x\<bar> - 2 powi e" using True lo by simp
      finally show ?thesis .
    next
      case neg: False
      have "\<bar>double x - x\<bar> \<le> \<bar>of_int (- (2 ^ 52)) * u - x\<bar>" by (rule near)
      also have "\<dots> = \<bar>- (2 powi e) - x\<bar>" by (simp add: pe)
      also have "\<dots> = \<bar>x\<bar> - 2 powi e" using neg lo \<open>x \<noteq> 0\<close> by simp
      finally show ?thesis .
    qed
    also have "\<dots> \<le> \<bar>x\<bar> - \<bar>of_int k * 2 powi j\<bar>" using small by simp
    also have "\<dots> \<le> \<bar>of_int k * 2 powi j - x\<bar>" by simp
    finally show ?thesis .
  qed
qed

lemma double_fixed:
  assumes "\<bar>k\<bar> \<le> 2 ^ 53"
  shows "double (of_int k * 2 powi j) = of_int k * 2 powi j"
  using double_nearest [OF assms, of "of_int k * 2 powi j" j] by simp

lemma double_representable:
  "\<exists>k j. \<bar>k\<bar> \<le> 2 ^ 53 \<and> double x = of_int k * 2 powi j"
proof (cases "x = 0")
  case True
  have "\<bar>0::int\<bar> \<le> 2 ^ 53 \<and> double x = of_int 0 * 2 powi 0" by (simp add: True double_zero)
  then show ?thesis by blast
next
  case False
  define u :: rat where "u = 2 powi (binade x - 52)"
  define q where "q = x / u"
  have upos: "0 < u" by (simp add: u_def)
  have "\<bar>x\<bar> < 2 powi (binade x + 1)" by (rule binade_bounds(2) [OF False])
  also have "(2::rat) powi (binade x + 1) = 2 powi (53 + (binade x - 52))"
    by (rule arg_cong [where f = "\<lambda>e. 2 powi e"]) simp
  also have "\<dots> = 2 ^ 53 * u" unfolding u_def by (subst power_int_add) simp_all
  finally have "\<bar>x\<bar> / u < 2 ^ 53" using upos by (simp add: pos_divide_less_eq)
  then have "\<bar>q\<bar> < 2 ^ 53" using upos by (simp add: q_def)
  then have "q \<le> of_int (2 ^ 53)" "of_int (- (2 ^ 53)) \<le> q" by simp_all
  then have "round_half_even q \<le> 2 ^ 53" "- (2 ^ 53) \<le> round_half_even q"
    by (simp_all only: round_half_even_le round_half_even_ge)
  then have "\<bar>round_half_even q\<bar> \<le> 2 ^ 53" by simp
  moreover have "double x = of_int (round_half_even q) * 2 powi (binade x - 52)"
    using False by (simp add: double_eq q_def u_def)
  ultimately show ?thesis by blast
qed

lemma double_mono:
  assumes "x \<le> y"
  shows "double x \<le> double y"
proof (rule ccontr)
  assume "\<not> double x \<le> double y"
  then have gt: "double y < double x" by simp
  obtain kx jx where kx: "\<bar>kx\<bar> \<le> 2 ^ 53" "double x = of_int kx * 2 powi jx"
    using double_representable [of x] by blast
  obtain ky jy where ky: "\<bar>ky\<bar> \<le> 2 ^ 53" "double y = of_int ky * 2 powi jy"
    using double_representable [of y] by blast
  have a: "\<bar>double x - x\<bar> \<le> \<bar>double y - x\<bar>"
    using double_nearest [OF ky(1), of x jy] by (simp add: ky(2))
  have b: "\<bar>double y - y\<bar> \<le> \<bar>double x - y\<bar>"
    using double_nearest [OF kx(1), of y jx] by (simp add: kx(2))
  have "double x + double y \<le> 2 * x" using a gt by linarith
  moreover have "2 * y \<le> double x + double y" using b gt by linarith
  ultimately have "x = y" using assms by linarith
  with gt show False by simp
qed

subsection \<open>The streak walk\<close>

lemma streak_loop_shift:
  "streak_loop now (Suc i) c es = streak_loop (now - day_ms) i c es"
proof (induction es arbitrary: i c)
  case Nil
  show ?case by simp
next
  case (Cons e es)
  have eq: "iso_date (now - int (Suc i) * day_ms) = iso_date (now - day_ms - int i * day_ms)"
    by (simp add: algebra_simps)
  show ?case
    unfolding streak_loop.simps eq Cons.IH ..
qed

lemma streak_loop_Suc:
  "streak_loop now i (Suc c) es = Suc (streak_loop now i c es)"
  by (induction es arbitrary: i c) simp_all

lemma insort_key_behind:
  "f x < f y \<Longrightarrow> insort_key f y (x # l) = x # insort_key f y l"
  by (simp add: less_le_not_le)

lemma foldr_insort_key_head:
  "\<forall>y \<in> set ys. f x < f y \<Longrightarrow> foldr (insort_key f) ys (x # l) = x # foldr (insort_key f) ys l"
proof (induction ys)
  case Nil
  show ?case by simp
next
  case (Cons a ys)
  then have "f x < f a" and "foldr (insort_key f) ys (x # l) = x # foldr (insort_key f) ys l"
    by simp_all
  then show ?case by (simp add: insort_key_behind del: insort_key.simps)
qed

lemma sort_key_newest_first:
  fixes f :: "'a \<Rightarrow> int"
  assumes "\<forall>y \<in> set ys. f x < f y" and "\<forall>z \<in> set zs. f x \<le> f z"
  shows "sort_key f (ys @ x # zs) = x # sort_key f (ys @ zs)"
proof -
  have "insort_key f x (sort_key f zs) = x # sort_key f zs"
    using assms(2) by (simp add: insort_is_Cons)
  then show ?thesis
    using foldr_insort_key_head [OF assms(1), of "sort_key f zs"]
    by (simp add: sort_key_def)
qed

lemma iso_date_less: "iso_date s < iso_date t \<Longrightarrow> s < t"
proof (rule ccontr)
  assume a: "iso_date s < iso_date t" and "\<not> s < t"
  then have "t \<le> s" by simp
  then have "t div day_ms \<le> s div day_ms"
    by (rule zdiv_mono1) (simp add: day_ms_def)
  with a show False by (simp add: iso_date_def)
qed

lemma streak_zero_without_today:
  assumes "\<forall>e \<in> set es. iso_date (timestamp e) \<noteq> iso_date now"
  shows "streak now es = 0"
proof (cases "sortedEntries es")
  case Nil
  then show ?thesis by (simp add: streak_def)
next
  case (Cons h t)
  then have "h \<in> set (sortedEntries es)" by simp
  then have "h \<in> set es" by (simp add: sortedEntries_def)
  with assms have "iso_date (timestamp h) \<noteq> iso_date now" by blast
  with Cons show ?thesis by (simp add: streak_def)
qed

subsection \<open>The heuristics in sequence\<close>

lemma exercise_step_append: "exercise_step es d = d @ exercise_step es []"
  by (simp add: exercise_step_def Let_def)

lemma social_step_append: "social_step es d = d @ social_step es []"
  by (simp add: social_step_def Let_def)

lemma sleep_step_append: "sleep_step es d = d @ sleep_step es []"
  by (simp add: sleep_step_def Let_def)

lemma day_step_append: "day_step tz es d = d @ day_step tz es []"
  by (simp add: day_step_def Let_def split: option.splits)

lemma meditation_step_append: "meditation_step es d = d @ meditation_step es []"
  by (simp add: meditation_step_def Let_def)

lemma patterns_append:
  assumes "7 \<le> length es"
  shows "patterns tz es =
    exercise_step es [] @ social_step es [] @ sleep_step es [] @ day_step tz es []
      @ meditation_step es []"
proof -
  have "patterns tz es =
      meditation_step es (day_step tz es (sleep_step es (social_step es (exercise_step es []))))"
    using assms by (simp add: patterns_def)
  also have "\<dots> = ((((exercise_step es [] @ social_step es []) @ sleep_step es [])
      @ day_step tz es []) @ meditation_step es [])"
    by (metis meditation_step_append day_step_append sleep_step_append social_step_append)
  finally show ?thesis by simp
qed

lemma exercise_step_icons: "map icon (exercise_step es []) = [] \<or> map icon (exercise_step es []) = [Dumbbell]"
  by (simp add: exercise_step_def Let_def)

lemma social_step_icons: "map icon (social_step es []) = [] \<or> map icon (social_step es []) = [Users]"
  by (simp add: social_step_def Let_def)

lemma sleep_step_icons: "map icon (sleep_step es []) = [] \<or> map icon (sleep_step es []) = [Moon]"
  by (simp add: sleep_step_def Let_def)

lemma day_step_icons: "map icon (day_step tz es []) = [] \<or> map icon (day_step tz es []) = [Calendar]"
  by (simp add: day_step_def Let_def split: option.splits)

lemma meditation_step_icons: "map icon (meditation_step es []) = [] \<or> map icon (meditation_step es []) = [Brain]"
  by (simp add: meditation_step_def Let_def)

lemma icons_filter_other:
  assumes "map icon ps = [] \<or> map icon ps = [i]" and "i \<noteq> j"
  shows "filter (\<lambda>p. icon p = j) ps = []"
  using assms by (cases ps) auto

lemma subseq_single: "xs = [] \<or> xs = [i] \<Longrightarrow> subseq xs [i]"
  by auto

lemma double_small_values: "double (3 / 2) = 3 / 2" "double (4 / 5) = 3602879701896397 / 4503599627370496"
  by code_simp+

lemma exercise_step_closed:
  assumes "3 < length (filter exercise es)" and "3 < length (filter (\<lambda>e. \<not> exercise e) es)"
  shows "exercise_step es [] =
    (if 1 < exercise_diff_double es
     then [\<lparr> ptype = Booster, title = ''Exercise Boosts Your Mood'',
             confidence = Fin (of_int (min 95 (round (dmul (exercise_diff_double es) 15)))),
             icon = Dumbbell \<rparr>]
     else [])"
proof -
  have a: "filter exercise es \<noteq> []" and b: "filter (\<lambda>e. \<not> exercise e) es \<noteq> []"
    using assms by auto
  show ?thesis
    using assms
    by (simp add: exercise_step_def Let_def average_Fin [OF a] average_Fin [OF b] js_sub_Fin
        js_mul_Fin js_gt_def js_min_def exercise_diff_double_def round_def min_def
        del: js_mul.simps)
qed

subsection \<open>The table of moods by weekday\<close>

lemma first_seen_snoc:
  "first_seen (xs @ [x]) = (if x \<in> set xs then first_seen xs else first_seen xs @ [x])"
  by (simp add: first_seen_def)

lemma distinct_first_seen: "distinct (first_seen xs)"
  by (simp add: first_seen_def)

lemma set_first_seen: "set (first_seen xs) = set xs"
  by (simp add: first_seen_def)

lemma push_mood_map:
  assumes "distinct ks"
  shows "push_mood d m (map (\<lambda>k. (k, g k)) ks) =
    (if d \<in> set ks then map (\<lambda>k. (k, if k = d then g k @ [m] else g k)) ks
     else map (\<lambda>k. (k, g k)) ks @ [(d, [m])])"
  using assms
proof (induction ks)
  case Nil
  show ?case by simp
next
  case (Cons k ks)
  show ?case
  proof (cases "k = d")
    case True
    then have "d \<notin> set ks" using Cons.prems by simp
    then have "map (\<lambda>k. (k, if k = d then g k @ [m] else g k)) ks = map (\<lambda>k. (k, g k)) ks"
      by (intro map_cong) auto
    with True show ?thesis by simp
  next
    case False
    then show ?thesis using Cons by simp
  qed
qed

lemma dayMoods_closed:
  "dayMoods tz es =
     map (\<lambda>d. (d, map mood (filter (\<lambda>e. weekday_of tz e = d) es)))
       (first_seen (map (weekday_of tz) es))"
proof (induction es rule: rev_induct)
  case Nil
  show ?case by (simp add: dayMoods_def first_seen_def)
next
  case (snoc e es)
  have step: "dayMoods tz (es @ [e]) = push_mood (weekday_of tz e) (mood e) (dayMoods tz es)"
    by (simp add: dayMoods_def weekday_of_def)
  show ?case
  proof (cases "weekday_of tz e \<in> set (map (weekday_of tz) es)")
    case True
    then have "weekday_of tz e \<in> set (first_seen (map (weekday_of tz) es))"
      by (simp add: set_first_seen)
    then show ?thesis
      using True
      by (simp add: step snoc.IH push_mood_map [OF distinct_first_seen] first_seen_snoc)
  next
    case False
    then have n: "weekday_of tz e \<notin> set (first_seen (map (weekday_of tz) es))"
      by (simp add: set_first_seen)
    have "\<forall>x \<in> set es. weekday_of tz x \<noteq> weekday_of tz e"
    proof
      fix x assume "x \<in> set es"
      then have "weekday_of tz x \<in> set (map (weekday_of tz) es)" by simp
      with False show "weekday_of tz x \<noteq> weekday_of tz e" by metis
    qed
    then have none: "filter (\<lambda>x. weekday_of tz x = weekday_of tz e) es = []"
      by (simp add: filter_empty_conv)
    have same: "map (\<lambda>d. (d, map mood (filter (\<lambda>e. weekday_of tz e = d) es)))
          (first_seen (map (weekday_of tz) es))
        = map (\<lambda>d. (d, map mood (filter (\<lambda>e. weekday_of tz e = d) (es @ [e]))))
          (first_seen (map (weekday_of tz) es))"
      using n by (intro map_cong) auto
    have "dayMoods tz (es @ [e])
        = map (\<lambda>d. (d, map mood (filter (\<lambda>e. weekday_of tz e = d) es)))
            (first_seen (map (weekday_of tz) es)) @ [(weekday_of tz e, [mood e])]"
      using n by (simp add: step snoc.IH push_mood_map [OF distinct_first_seen])
    also have "\<dots> = map (\<lambda>d. (d, map mood (filter (\<lambda>e. weekday_of tz e = d) (es @ [e]))))
            (first_seen (map (weekday_of tz) es)) @ [(weekday_of tz e, [mood e])]"
      by (simp only: same)
    also have "\<dots> = map (\<lambda>d. (d, map mood (filter (\<lambda>e. weekday_of tz e = d) (es @ [e]))))
            (first_seen (map (weekday_of tz) (es @ [e])))"
      using False by (simp add: first_seen_snoc none)
    finally show ?thesis .
  qed
qed

lemma dayAverages_closed:
  "dayAverages tz es =
     map (\<lambda>d. \<lparr> day = d, avg = Fin (day_dmean tz es d) \<rparr>) (first_seen (map (weekday_of tz) es))"
proof -
  have "\<And>d. d \<in> set (first_seen (map (weekday_of tz) es)) \<Longrightarrow>
      js_div (reduce_sum (\<lambda>m. m) (map mood (filter (\<lambda>e. weekday_of tz e = d) es)))
        (js_length (map mood (filter (\<lambda>e. weekday_of tz e = d) es)))
      = Fin (day_dmean tz es d)"
  proof -
    fix d assume "d \<in> set (first_seen (map (weekday_of tz) es))"
    then obtain e where "e \<in> set es" and "weekday_of tz e = d"
      by (auto simp: set_first_seen)
    then have "filter (\<lambda>e. weekday_of tz e = d) es \<noteq> []"
      by (auto simp: filter_empty_conv)
    then have "map mood (filter (\<lambda>e. weekday_of tz e = d) es) \<noteq> []" by simp
    then show "js_div (reduce_sum (\<lambda>m. m) (map mood (filter (\<lambda>e. weekday_of tz e = d) es)))
        (js_length (map mood (filter (\<lambda>e. weekday_of tz e = d) es)))
      = Fin (day_dmean tz es d)"
      by (simp add: average_Fin day_dmean_def)
  qed
  then show ?thesis
    by (simp add: dayAverages_def dayMoods_closed comp_def)
qed

lemma best_fold:
  "\<exists>b' \<in> set (b # ks). (\<forall>k \<in> set (b # ks). g k \<le> g b')
     \<and> foldl (\<lambda>best curr. if js_gt (avg curr) (avg best) then curr else best)
          \<lparr> day = b, avg = Fin (g b) \<rparr> (map (\<lambda>d. \<lparr> day = d, avg = Fin (g d) \<rparr>) ks)
        = \<lparr> day = b', avg = Fin (g b') \<rparr>"
proof (induction ks arbitrary: b)
  case Nil
  show ?case by simp
next
  case (Cons k ks)
  define b0 where "b0 = (if g b < g k then k else b)"
  have b0: "g b \<le> g b0" "g k \<le> g b0" "b0 \<in> set (b # k # ks)"
    by (auto simp: b0_def)
  obtain b' where b': "b' \<in> set (b0 # ks)" "\<forall>k \<in> set (b0 # ks). g k \<le> g b'"
    "foldl (\<lambda>best curr. if js_gt (avg curr) (avg best) then curr else best)
       \<lparr> day = b0, avg = Fin (g b0) \<rparr> (map (\<lambda>d. \<lparr> day = d, avg = Fin (g d) \<rparr>) ks)
     = \<lparr> day = b', avg = Fin (g b') \<rparr>"
    using Cons.IH [of b0] by blast
  have "b' \<in> set (b # k # ks)" using b'(1) b0(3) by auto
  moreover have "\<forall>x \<in> set (b # k # ks). g x \<le> g b'"
    using b'(2) b0(1,2) by (auto intro: order_trans)
  moreover have "foldl (\<lambda>best curr. if js_gt (avg curr) (avg best) then curr else best)
       \<lparr> day = b, avg = Fin (g b) \<rparr> (map (\<lambda>d. \<lparr> day = d, avg = Fin (g d) \<rparr>) (k # ks))
     = \<lparr> day = b', avg = Fin (g b') \<rparr>"
    using b'(3) by (cases "g b < g k") (simp_all add: js_gt_def b0_def)
  ultimately show ?case by blast
qed

lemma worst_fold:
  "\<exists>w' \<in> set (w # ks). (\<forall>k \<in> set (w # ks). g w' \<le> g k)
     \<and> foldl (\<lambda>worst curr. if js_lt (avg curr) (avg worst) then curr else worst)
          \<lparr> day = w, avg = Fin (g w) \<rparr> (map (\<lambda>d. \<lparr> day = d, avg = Fin (g d) \<rparr>) ks)
        = \<lparr> day = w', avg = Fin (g w') \<rparr>"
proof (induction ks arbitrary: w)
  case Nil
  show ?case by simp
next
  case (Cons k ks)
  define w0 where "w0 = (if g k < g w then k else w)"
  have w0: "g w0 \<le> g w" "g w0 \<le> g k" "w0 \<in> set (w # k # ks)"
    by (auto simp: w0_def)
  obtain w' where w': "w' \<in> set (w0 # ks)" "\<forall>k \<in> set (w0 # ks). g w' \<le> g k"
    "foldl (\<lambda>worst curr. if js_lt (avg curr) (avg worst) then curr else worst)
       \<lparr> day = w0, avg = Fin (g w0) \<rparr> (map (\<lambda>d. \<lparr> day = d, avg = Fin (g d) \<rparr>) ks)
     = \<lparr> day = w', avg = Fin (g w') \<rparr>"
    using Cons.IH [of w0] by blast
  have "w' \<in> set (w # k # ks)" using w'(1) w0(3) by auto
  moreover have "\<forall>x \<in> set (w # k # ks). g w' \<le> g x"
    using w'(2) w0(1,2) by (auto intro: order_trans)
  moreover have "foldl (\<lambda>worst curr. if js_lt (avg curr) (avg worst) then curr else worst)
       \<lparr> day = w, avg = Fin (g w) \<rparr> (map (\<lambda>d. \<lparr> day = d, avg = Fin (g d) \<rparr>) (k # ks))
     = \<lparr> day = w', avg = Fin (g w') \<rparr>"
    using w'(3) by (cases "g k < g w") (simp_all add: w0_def)
  ultimately show ?case by blast
qed

lemma bestDay_closed:
  assumes "ks \<noteq> []"
  shows "\<exists>b \<in> set ks. g b = Max (g ` set ks)
    \<and> bestDay (map (\<lambda>d. \<lparr> day = d, avg = Fin (g d) \<rparr>) ks) = Some \<lparr> day = b, avg = Fin (g b) \<rparr>"
proof -
  obtain k0 rest where ks: "ks = k0 # rest" using assms by (cases ks) auto
  obtain b where b: "b \<in> set (k0 # ks)" "\<forall>k \<in> set (k0 # ks). g k \<le> g b"
    "foldl (\<lambda>best curr. if js_gt (avg curr) (avg best) then curr else best)
       \<lparr> day = k0, avg = Fin (g k0) \<rparr> (map (\<lambda>d. \<lparr> day = d, avg = Fin (g d) \<rparr>) ks)
     = \<lparr> day = b, avg = Fin (g b) \<rparr>"
    using best_fold [of k0 ks g] by blast
  have "b \<in> set ks" using b(1) ks by auto
  moreover have "g b = Max (g ` set ks)"
  proof (rule sym, rule Max_eqI)
    show "finite (g ` set ks)" by simp
    show "\<And>y. y \<in> g ` set ks \<Longrightarrow> y \<le> g b" using b(2) by auto
    show "g b \<in> g ` set ks" using \<open>b \<in> set ks\<close> by simp
  qed
  moreover have "bestDay (map (\<lambda>d. \<lparr> day = d, avg = Fin (g d) \<rparr>) ks)
      = Some \<lparr> day = b, avg = Fin (g b) \<rparr>"
    using b(3) by (simp add: bestDay_def ks)
  ultimately show ?thesis by blast
qed

lemma worstDay_closed:
  assumes "ks \<noteq> []"
  shows "\<exists>w \<in> set ks. g w = Min (g ` set ks)
    \<and> worstDay (map (\<lambda>d. \<lparr> day = d, avg = Fin (g d) \<rparr>) ks) = Some \<lparr> day = w, avg = Fin (g w) \<rparr>"
proof -
  obtain k0 rest where ks: "ks = k0 # rest" using assms by (cases ks) auto
  obtain w where w: "w \<in> set (k0 # ks)" "\<forall>k \<in> set (k0 # ks). g w \<le> g k"
    "foldl (\<lambda>worst curr. if js_lt (avg curr) (avg worst) then curr else worst)
       \<lparr> day = k0, avg = Fin (g k0) \<rparr> (map (\<lambda>d. \<lparr> day = d, avg = Fin (g d) \<rparr>) ks)
     = \<lparr> day = w, avg = Fin (g w) \<rparr>"
    using worst_fold [of k0 ks g] by blast
  have "w \<in> set ks" using w(1) ks by auto
  moreover have "g w = Min (g ` set ks)"
  proof (rule sym, rule Min_eqI)
    show "finite (g ` set ks)" by simp
    show "\<And>y. y \<in> g ` set ks \<Longrightarrow> g w \<le> y" using w(2) by auto
    show "g w \<in> g ` set ks" using \<open>w \<in> set ks\<close> by simp
  qed
  moreover have "worstDay (map (\<lambda>d. \<lparr> day = d, avg = Fin (g d) \<rparr>) ks)
      = Some \<lparr> day = w, avg = Fin (g w) \<rparr>"
    using w(3) by (simp add: worstDay_def ks)
  ultimately show ?thesis by blast
qed

lemma day_step_closed:
  assumes "es \<noteq> []"
  shows "\<exists>w \<in> weekdays_of tz es. day_dmean tz es w = worst_dmean tz es
    \<and> day_step tz es [] =
        (if 5 \<le> card (weekdays_of tz es) \<and> 3 / 2 < dsub (best_dmean tz es) (worst_dmean tz es)
         then [\<lparr> ptype = Day, title = w @ ''s Are Harder for You'', confidence = Fin 75,
                 icon = Calendar \<rparr>]
         else [])"
proof -
  define ks where "ks = first_seen (map (weekday_of tz) es)"
  have set_ks: "set ks = weekdays_of tz es"
    by (simp add: ks_def set_first_seen weekdays_of_def)
  have "distinct ks" by (simp add: ks_def distinct_first_seen)
  then have len: "length ks = card (weekdays_of tz es)"
    using set_ks distinct_card by fastforce
  have "ks \<noteq> []" using assms set_ks by (auto simp: weekdays_of_def)
  obtain b where b: "day_dmean tz es b = Max (day_dmean tz es ` set ks)"
    "bestDay (map (\<lambda>d. \<lparr> day = d, avg = Fin (day_dmean tz es d) \<rparr>) ks)
       = Some \<lparr> day = b, avg = Fin (day_dmean tz es b) \<rparr>"
    using bestDay_closed [OF \<open>ks \<noteq> []\<close>, of "day_dmean tz es"] by blast
  obtain w where w: "w \<in> set ks" "day_dmean tz es w = Min (day_dmean tz es ` set ks)"
    "worstDay (map (\<lambda>d. \<lparr> day = d, avg = Fin (day_dmean tz es d) \<rparr>) ks)
       = Some \<lparr> day = w, avg = Fin (day_dmean tz es w) \<rparr>"
    using worstDay_closed [OF \<open>ks \<noteq> []\<close>, of "day_dmean tz es"] by blast
  have "day_step tz es [] =
        (if 5 \<le> card (weekdays_of tz es) \<and> 3 / 2 < dsub (best_dmean tz es) (worst_dmean tz es)
         then [\<lparr> ptype = Day, title = w @ ''s Are Harder for You'', confidence = Fin 75,
                 icon = Calendar \<rparr>]
         else [])"
    using b w(2,3) len
    by (simp add: day_step_def dayAverages_closed flip: ks_def)
       (simp add: set_ks best_dmean_def worst_dmean_def js_sub_Fin js_gt_def lit_def
          double_small_values)
  moreover have "day_dmean tz es w = worst_dmean tz es"
    using w(2) by (simp add: worst_dmean_def set_ks)
  moreover have "w \<in> weekdays_of tz es" using w(1) set_ks by simp
  ultimately show ?thesis by blast
qed

lemma exercise_step_no_day: "filter (\<lambda>p. ptype p = Day) (exercise_step es []) = []"
  by (simp add: exercise_step_def Let_def)

lemma social_step_no_day: "filter (\<lambda>p. ptype p = Day) (social_step es []) = []"
  by (simp add: social_step_def Let_def)

lemma sleep_step_no_day: "filter (\<lambda>p. ptype p = Day) (sleep_step es []) = []"
  by (simp add: sleep_step_def Let_def)

lemma meditation_step_no_day: "filter (\<lambda>p. ptype p = Day) (meditation_step es []) = []"
  by (simp add: meditation_step_def Let_def)

lemma day_step_all_day: "filter (\<lambda>p. ptype p = Day) (day_step tz es []) = day_step tz es []"
  by (simp add: day_step_def Let_def split: option.splits)

lemma only_day_step_emits_day:
  "7 \<le> length es \<Longrightarrow> filter (\<lambda>p. ptype p = Day) (patterns tz es) = day_step tz es []"
  by (simp add: patterns_append exercise_step_no_day social_step_no_day sleep_step_no_day
      meditation_step_no_day day_step_all_day)

subsection \<open>The sample weeks\<close>

lemma few_days_weekdays:
  "map (weekday_of (\<lambda>t. 0)) few_days_log
     = [''Thursday'', ''Friday'', ''Saturday'', ''Thursday'', ''Friday'', ''Saturday'', ''Thursday'']"
  by (simp add: few_days_log_def weekday_of_def weekday_long_def weekday_names_def entry_at_def
      day_ms_def)

lemma all_days_weekdays:
  "map (weekday_of (\<lambda>t. 0)) all_days_log
     = [''Thursday'', ''Friday'', ''Saturday'', ''Sunday'', ''Monday'', ''Tuesday'', ''Wednesday'']"
  by (simp add: all_days_log_def weekday_of_def weekday_long_def weekday_names_def entry_at_def
      day_ms_def)

lemma all_days_means:
  "day_dmean (\<lambda>t. 0) all_days_log ''Thursday'' = 8"
  "day_dmean (\<lambda>t. 0) all_days_log ''Friday'' = 7"
  "day_dmean (\<lambda>t. 0) all_days_log ''Saturday'' = 8"
  "day_dmean (\<lambda>t. 0) all_days_log ''Sunday'' = 9"
  "day_dmean (\<lambda>t. 0) all_days_log ''Monday'' = 3"
  "day_dmean (\<lambda>t. 0) all_days_log ''Tuesday'' = 7"
  "day_dmean (\<lambda>t. 0) all_days_log ''Wednesday'' = 8"
  by code_simp+

lemma few_days_means:
  "day_dmean (\<lambda>t. 0) few_days_log ''Thursday'' = 9"
  "day_dmean (\<lambda>t. 0) few_days_log ''Friday'' = 5"
  "day_dmean (\<lambda>t. 0) few_days_log ''Saturday'' = 2"
  by code_simp+

lemma all_days_set:
  "weekdays_of (\<lambda>t. 0) all_days_log
     = {''Thursday'', ''Friday'', ''Saturday'', ''Sunday'', ''Monday'', ''Tuesday'', ''Wednesday''}"
  using all_days_weekdays by (simp add: weekdays_of_def flip: set_map)

lemma few_days_set:
  "weekdays_of (\<lambda>t. 0) few_days_log = {''Thursday'', ''Friday'', ''Saturday''}"
proof -
  have "weekdays_of (\<lambda>t. 0) few_days_log = set (map (weekday_of (\<lambda>t. 0)) few_days_log)"
    by (simp add: weekdays_of_def)
  also have "\<dots> = {''Thursday'', ''Friday'', ''Saturday''}"
    unfolding few_days_weekdays by auto
  finally show ?thesis .
qed

lemma all_days_exact_means:
  "day_mean (\<lambda>t. 0) all_days_log ''Thursday'' = 8"
  "day_mean (\<lambda>t. 0) all_days_log ''Friday'' = 7"
  "day_mean (\<lambda>t. 0) all_days_log ''Saturday'' = 8"
  "day_mean (\<lambda>t. 0) all_days_log ''Sunday'' = 9"
  "day_mean (\<lambda>t. 0) all_days_log ''Monday'' = 3"
  "day_mean (\<lambda>t. 0) all_days_log ''Tuesday'' = 7"
  "day_mean (\<lambda>t. 0) all_days_log ''Wednesday'' = 8"
  by (simp_all add: day_mean_def mean_def all_days_log_def weekday_of_def weekday_long_def
      weekday_names_def entry_at_def day_ms_def)

lemma all_days_whole: "whole_moods all_days_log"
proof -
  have "(3::rat) = of_nat 3" "(7::rat) = of_nat 7" "(8::rat) = of_nat 8" "(9::rat) = of_nat 9"
    by simp_all
  then have "(3::rat) \<in> of_nat ` {0..10}" "(7::rat) \<in> of_nat ` {0..10}"
    "(8::rat) \<in> of_nat ` {0..10}" "(9::rat) \<in> of_nat ` {0..10}"
    by (auto simp only: image_iff atLeastAtMost_iff intro!: bexI)
  then show ?thesis
    by (simp add: whole_moods_def all_days_log_def entry_at_def)
qed

subsection \<open>Whole-number moods: rounding does not change the comparison of weekday means\<close>

lemma double_of_nat: "int n \<le> 2 ^ 53 \<Longrightarrow> double (of_nat n) = of_nat n"
proof -
  assume "int n \<le> 2 ^ 53"
  then have "\<bar>int n\<bar> \<le> 2 ^ 53" by simp
  from double_fixed [OF this, of 0] show ?thesis by simp
qed

lemma sum_list_of_nat: "sum_list (map of_nat ks) = (of_nat (sum_list ks) :: rat)"
  by (induction ks) simp_all

lemma foldl_dadd_whole:
  assumes "\<forall>k \<in> set ks. k \<le> 10" and "int s + 10 * int (length ks) \<le> 2 ^ 53"
  shows "foldl dadd (of_nat s) (map of_nat ks) = of_nat (s + sum_list ks)"
  using assms
proof (induction ks arbitrary: s)
  case Nil
  show ?case by simp
next
  case (Cons k ks)
  have k: "k \<le> 10" using Cons.prems(1) by simp
  have "int (s + k) \<le> 2 ^ 53" using Cons.prems(2) k by simp
  then have "dadd (of_nat s) (of_nat k) = of_nat (s + k)"
    using double_of_nat [of "s + k"] by (simp add: dadd_def)
  moreover have "foldl dadd (of_nat (s + k)) (map of_nat ks) = of_nat (s + k + sum_list ks)"
    using Cons.prems k by (intro Cons.IH) simp_all
  ultimately show ?case by (simp add: add.assoc)
qed

lemma dsum_whole:
  assumes "\<forall>k \<in> set ks. k \<le> 10" and "int (length ks) \<le> 2 ^ 20"
  shows "dsum (map of_nat ks) = of_nat (sum_list ks)"
proof -
  have "int 0 + 10 * int (length ks) \<le> 2 ^ 53" using assms(2) by simp
  from foldl_dadd_whole [OF assms(1) this] show ?thesis by (simp add: dsum_def)
qed

lemma dmean_whole:
  assumes "\<forall>k \<in> set ks. k \<le> 10" and "int (length ks) \<le> 2 ^ 20"
  shows "dmean (map of_nat ks) = double (mean (map of_nat ks))"
  by (simp add: dmean_def ddiv_def mean_def dsum_whole [OF assms] sum_list_of_nat)

lemma sum_list_le_10: "\<forall>k \<in> set ks. k \<le> (10::nat) \<Longrightarrow> sum_list ks \<le> 10 * length ks"
  by (induction ks) auto


lemma double_grid:
  assumes "0 \<le> k" and "k \<le> 2 ^ 53"
  shows "double (of_int k / 2 ^ 49) = of_int k / 2 ^ 49"
proof -
  have "\<bar>k\<bar> \<le> 2 ^ 53" using assms by simp
  from double_fixed [OF this, of "- 49"] show ?thesis
    by (simp add: power_int_minus_divide)
qed

lemma grid_ceiling:
  fixes a :: rat
  assumes "0 \<le> a" and "a \<le> 10"
  defines "k \<equiv> \<lceil>a * 2 ^ 49\<rceil>"
  shows "0 \<le> k" and "k \<le> 10 * 2 ^ 49" and "a \<le> of_int k / 2 ^ 49"
    and "of_int k / 2 ^ 49 < a + 1 / 2 ^ 49"
proof -
  have "0 \<le> a * 2 ^ 49" using assms(1) by simp
  then show "0 \<le> k" unfolding k_def by (simp add: ceiling_le_iff le_ceiling_iff)
  have "a * 2 ^ 49 \<le> of_int (10 * 2 ^ 49)" using assms(2) by simp
  then show "k \<le> 10 * 2 ^ 49" unfolding k_def by (simp only: ceiling_le_iff)
  have "a * 2 ^ 49 \<le> of_int k" unfolding k_def by (rule le_of_int_ceiling)
  then show "a \<le> of_int k / 2 ^ 49" by (simp add: pos_le_divide_eq)
  have "of_int k < a * 2 ^ 49 + 1" unfolding k_def by linarith
  then show "of_int k / 2 ^ 49 < a + 1 / 2 ^ 49"
    by (simp add: pos_divide_less_eq distrib_right)
qed

lemma grid_floor:
  fixes b :: rat
  assumes "0 \<le> b" and "b \<le> 10"
  defines "k \<equiv> \<lfloor>b * 2 ^ 49\<rfloor>"
  shows "0 \<le> k" and "k \<le> 10 * 2 ^ 49" and "of_int k / 2 ^ 49 \<le> b"
    and "b - 1 / 2 ^ 49 < of_int k / 2 ^ 49"
proof -
  have "0 \<le> b * 2 ^ 49" using assms(1) by simp
  then show "0 \<le> k" unfolding k_def by (simp add: le_floor_iff)
  have "b * 2 ^ 49 \<le> of_int (10 * 2 ^ 49)" using assms(2) by simp
  then have "\<lfloor>b * 2 ^ 49\<rfloor> \<le> \<lfloor>(of_int (10 * 2 ^ 49) :: rat)\<rfloor>" by (rule floor_mono)
  then show "k \<le> 10 * 2 ^ 49" unfolding k_def by (simp only: floor_of_int)
  have "of_int k \<le> b * 2 ^ 49" unfolding k_def by (rule of_int_floor_le)
  then show "of_int k / 2 ^ 49 \<le> b" by (simp add: pos_divide_le_eq)
  have "b * 2 ^ 49 - 1 < of_int k" unfolding k_def by linarith
  then show "b - 1 / 2 ^ 49 < of_int k / 2 ^ 49"
    by (simp add: pos_less_divide_eq left_diff_distrib)
qed

lemma double_separates:
  assumes "0 \<le> a" and "b \<le> 10" and "a + 2 / 2 ^ 49 \<le> b"
  shows "double a < double b"
proof -
  define k where "k = \<lceil>a * 2 ^ 49\<rceil>"
  have a10: "a \<le> 10" using assms by simp
  note g = grid_ceiling [OF assms(1) a10, folded k_def]
  have k53: "k \<le> 2 ^ 53" "0 \<le> k + 1" "k + 1 \<le> 2 ^ 53" using g(1,2) by simp_all
  have "double a \<le> double (of_int k / 2 ^ 49)" using g(3) by (rule double_mono)
  also have "\<dots> = of_int k / 2 ^ 49" using g(1) k53(1) by (rule double_grid)
  also have "\<dots> < of_int (k + 1) / 2 ^ 49" by (simp add: divide_strict_right_mono)
  also have "\<dots> = double (of_int (k + 1) / 2 ^ 49)" using k53(2,3) by (rule double_grid [symmetric])
  also have "\<dots> \<le> double b"
  proof (rule double_mono)
    have "of_int (k + 1) / 2 ^ 49 = of_int k / 2 ^ 49 + 1 / (2 ^ 49 :: rat)"
      by (simp add: add_divide_distrib)
    also have "\<dots> < a + 1 / 2 ^ 49 + 1 / 2 ^ 49" using g(4) by simp
    also have "\<dots> \<le> b" using assms(3) by simp
    finally show "of_int (k + 1) / 2 ^ 49 \<le> b" by simp
  qed
  finally show ?thesis .
qed

lemma double_threshold:
  assumes "0 \<le> w" and "b \<le> 10" and "3 / 2 + 2 / 2 ^ 49 \<le> b - w"
  shows "3 / 2 < double (double b - double w)"
proof -
  define kb where "kb = \<lfloor>b * 2 ^ 49\<rfloor>"
  define kw where "kw = \<lceil>w * 2 ^ 49\<rceil>"
  have b0: "0 \<le> b" and w10: "w \<le> 10" using assms by simp_all
  note gb = grid_floor [OF b0 assms(2), folded kb_def]
  note gw = grid_ceiling [OF assms(1) w10, folded kw_def]
  have gap: "3 / 2 < of_int kb / 2 ^ 49 - of_int kw / (2 ^ 49 :: rat)"
    using gb(4) gw(4) assms(3) by simp
  then have "of_int kw / (2 ^ 49 :: rat) < of_int kb / 2 ^ 49" by simp
  then have "(of_int kw :: rat) < of_int kb" by (simp add: divide_less_cancel)
  then have "kw < kb" by (simp only: of_int_less_iff)
  then have d: "0 \<le> kb - kw" "kb - kw \<le> 2 ^ 53" using gb(2) gw(1) by simp_all
  have "of_int kb / 2 ^ 49 = double (of_int kb / 2 ^ 49)"
    using gb(1,2) by (intro double_grid [symmetric]) simp_all
  also have "\<dots> \<le> double b" using gb(3) by (rule double_mono)
  finally have 1: "of_int kb / 2 ^ 49 \<le> double b" .
  have "double w \<le> double (of_int kw / 2 ^ 49)" using gw(3) by (rule double_mono)
  also have "\<dots> = of_int kw / 2 ^ 49" using gw(1,2) by (intro double_grid) simp_all
  finally have 2: "double w \<le> of_int kw / 2 ^ 49" .
  have "of_int (kb - kw) / (2 ^ 49 :: rat) = of_int kb / 2 ^ 49 - of_int kw / 2 ^ 49"
    by (simp add: diff_divide_distrib)
  then have 3: "of_int (kb - kw) / (2 ^ 49 :: rat) \<le> double b - double w"
    using 1 2 by simp
  have "3 / 2 < of_int (kb - kw) / (2 ^ 49 :: rat)"
    using gap by (simp add: diff_divide_distrib)
  also have "\<dots> = double (of_int (kb - kw) / 2 ^ 49)" using d by (rule double_grid [symmetric])
  also have "\<dots> \<le> double (double b - double w)" using 3 by (rule double_mono)
  finally show ?thesis .
qed


lemma mean_gap:
  fixes s1 n1 s2 n2 :: nat
  assumes "0 < n1" "0 < n2" "int n1 \<le> 2 ^ 20" "int n2 \<le> 2 ^ 20"
    and "(of_nat s1 / of_nat n1 :: rat) < of_nat s2 / of_nat n2"
  shows "(of_nat s1 / of_nat n1 :: rat) + 2 / 2 ^ 49 \<le> of_nat s2 / of_nat n2"
proof -
  have "(of_nat s1 * of_nat n2 :: rat) < of_nat s2 * of_nat n1"
    using assms(1,2,5) by (simp add: divide_simps mult.commute)
  then have "(of_nat (s1 * n2) :: rat) < of_nat (s2 * n1)" by simp
  then have "s1 * n2 < s2 * n1" by (simp only: of_nat_less_iff)
  then have "s1 * n2 + 1 \<le> s2 * n1" by simp
  then have "(of_nat (s1 * n2 + 1) :: rat) \<le> of_nat (s2 * n1)" by (simp only: of_nat_le_iff)
  then have num: "(of_nat s1 * of_nat n2 + 1 :: rat) \<le> of_nat s2 * of_nat n1" by simp
  have "int n1 * int n2 \<le> 2 ^ 20 * 2 ^ 20"
    using assms(3,4) by (intro mult_mono) simp_all
  then have "int (n1 * n2) \<le> 2 ^ 20 * 2 ^ 20" by simp
  then have "(of_int (int (n1 * n2)) :: rat) \<le> of_int (2 ^ 20 * 2 ^ 20)"
    by (simp only: of_int_le_iff)
  then have den: "(of_nat n1 * of_nat n2 :: rat) \<le> 2 ^ 40" by simp
  have pos: "(0::rat) < of_nat n1 * of_nat n2" using assms(1,2) by simp
  have "(2 :: rat) / 2 ^ 49 \<le> 1 / 2 ^ 40" by simp
  also have "\<dots> \<le> 1 / (of_nat n1 * of_nat n2)"
    using den pos by (intro divide_left_mono) simp_all
  also have "\<dots> \<le> (of_nat s2 * of_nat n1 - of_nat s1 * of_nat n2) / (of_nat n1 * of_nat n2)"
    using num pos by (intro divide_right_mono) simp_all
  also have "\<dots> = of_nat s2 / of_nat n2 - of_nat s1 / of_nat n1"
    using assms(1,2) by (simp add: divide_simps)
  finally have "(2 :: rat) / 2 ^ 49 \<le> of_nat s2 / of_nat n2 - of_nat s1 / of_nat n1" .
  then show ?thesis by (metis add.commute le_diff_eq)
qed

lemma spread_gap:
  fixes sb nb sw nw :: nat
  assumes "0 < nb" "0 < nw" "int nb \<le> 2 ^ 20" "int nw \<le> 2 ^ 20"
    and "3 / 2 < (of_nat sb / of_nat nb :: rat) - of_nat sw / of_nat nw"
  shows "3 / 2 + 2 / 2 ^ 49 \<le> (of_nat sb / of_nat nb :: rat) - of_nat sw / of_nat nw"
proof -
  have "(3 * (of_nat nb * of_nat nw) :: rat) < 2 * (of_nat sb * of_nat nw - of_nat sw * of_nat nb)"
    using assms(1,2,5) by (simp add: divide_simps mult.commute)
  then have "(of_int (3 * (int nb * int nw)) :: rat)
      < of_int (2 * (int sb * int nw - int sw * int nb))" by simp
  then have "3 * (int nb * int nw) < 2 * (int sb * int nw - int sw * int nb)"
    by (simp only: of_int_less_iff)
  then have "3 * (int nb * int nw) + 1 \<le> 2 * (int sb * int nw - int sw * int nb)" by simp
  then have "(of_int (3 * (int nb * int nw) + 1) :: rat)
      \<le> of_int (2 * (int sb * int nw - int sw * int nb))" by (simp only: of_int_le_iff)
  then have num: "(3 * (of_nat nb * of_nat nw) + 1 :: rat)
      \<le> 2 * (of_nat sb * of_nat nw - of_nat sw * of_nat nb)" by simp
  have "int nb * int nw \<le> 2 ^ 20 * 2 ^ 20"
    using assms(3,4) by (intro mult_mono) simp_all
  then have "(of_int (int nb * int nw) :: rat) \<le> of_int (2 ^ 20 * 2 ^ 20)"
    by (simp only: of_int_le_iff)
  then have den: "(2 * (of_nat nb * of_nat nw) :: rat) \<le> 2 ^ 41" by simp
  have pos: "(0::rat) < 2 * (of_nat nb * of_nat nw)" using assms(1,2) by simp
  have "(2 :: rat) / 2 ^ 49 \<le> 1 / 2 ^ 41" by simp
  also have "\<dots> \<le> 1 / (2 * (of_nat nb * of_nat nw))"
    using den pos by (intro divide_left_mono) simp_all
  also have "\<dots> \<le> (2 * (of_nat sb * of_nat nw - of_nat sw * of_nat nb)
        - 3 * (of_nat nb * of_nat nw)) / (2 * (of_nat nb * of_nat nw))"
    using num pos by (intro divide_right_mono) simp_all
  also have "\<dots> = of_nat sb / of_nat nb - of_nat sw / of_nat nw - 3 / 2"
    using assms(1,2) by (simp add: divide_simps)
  finally have "(2 :: rat) / 2 ^ 49
      \<le> of_nat sb / of_nat nb - of_nat sw / of_nat nw - 3 / 2" .
  then show ?thesis by (metis add.commute le_diff_eq)
qed


lemma whole_day_rep:
  assumes "whole_moods es" and "int (length es) \<le> 2 ^ 20" and "d \<in> weekdays_of tz es"
  obtains s n :: nat where "0 < n" and "int n \<le> 2 ^ 20" and "s \<le> 10 * n"
    and "day_mean tz es d = of_nat s / of_nat n"
    and "day_dmean tz es d = double (of_nat s / of_nat n)"
proof -
  define fs where "fs = filter (\<lambda>e. weekday_of tz e = d) es"
  have "\<forall>y \<in> set (map mood fs). \<exists>k. y = (of_nat k :: rat) \<and> k \<le> 10"
    using assms(1) by (auto simp: whole_moods_def fs_def)
  then have "\<exists>ks. map mood fs = map of_nat ks \<and> (\<forall>k \<in> set ks. k \<le> 10)"
  proof (induction fs)
    case Nil
    show ?case by simp
  next
    case (Cons e fs)
    then obtain ks where ks: "map mood fs = map of_nat ks" "\<forall>k \<in> set ks. k \<le> 10" by auto
    from Cons.prems obtain k where k: "mood e = of_nat k" "k \<le> 10" by auto
    have "map mood (e # fs) = map of_nat (k # ks) \<and> (\<forall>k \<in> set (k # ks). k \<le> 10)"
      using ks k by simp
    then show ?case by blast
  qed
  then obtain ks where ks: "map mood fs = map of_nat ks" "\<forall>k \<in> set ks. k \<le> 10" by blast
  have len: "length ks = length fs" using ks(1) by (metis length_map)
  obtain e where "e \<in> set es" "weekday_of tz e = d"
    using assms(3) by (auto simp: weekdays_of_def)
  then have "fs \<noteq> []" by (auto simp: fs_def filter_empty_conv)
  then have n: "0 < length ks" using len by simp
  have "length fs \<le> length es" by (simp add: fs_def)
  then have "int (length ks) \<le> int (length es)" using len by simp
  then have n20: "int (length ks) \<le> 2 ^ 20" using assms(2) by (rule order_trans)
  have "day_mean tz es d = of_nat (sum_list ks) / of_nat (length ks)"
    by (simp add: day_mean_def mean_def ks(1) sum_list_of_nat flip: fs_def)
  moreover have "day_dmean tz es d = double (of_nat (sum_list ks) / of_nat (length ks))"
    by (simp add: day_dmean_def ks(1) dmean_whole [OF ks(2) n20] mean_def sum_list_of_nat
        flip: fs_def)
  ultimately show ?thesis
    using that [of "length ks" "sum_list ks"] n n20 sum_list_le_10 [OF ks(2)] by blast
qed

lemma whole_day_bounds:
  assumes "whole_moods es" and "int (length es) \<le> 2 ^ 20" and "d \<in> weekdays_of tz es"
  shows "0 \<le> day_mean tz es d" and "day_mean tz es d \<le> 10"
    and "day_dmean tz es d = double (day_mean tz es d)"
proof -
  obtain s n :: nat where r: "0 < n" "s \<le> 10 * n" "day_mean tz es d = of_nat s / of_nat n"
    "day_dmean tz es d = double (of_nat s / of_nat n)"
    using whole_day_rep [OF assms] by metis
  show "0 \<le> day_mean tz es d" by (simp add: r(3))
  have "(of_nat s :: rat) \<le> of_nat (10 * n)" using r(2) by (simp only: of_nat_le_iff)
  then show "day_mean tz es d \<le> 10" using r(1) by (simp add: r(3) pos_divide_le_eq)
  show "day_dmean tz es d = double (day_mean tz es d)" by (simp add: r(3,4))
qed

lemma day_dmean_strict:
  assumes "whole_moods es" and "int (length es) \<le> 2 ^ 20"
    and "d \<in> weekdays_of tz es" and "d' \<in> weekdays_of tz es"
    and "day_mean tz es d < day_mean tz es d'"
  shows "day_dmean tz es d < day_dmean tz es d'"
proof -
  obtain s n :: nat where r: "0 < n" "int n \<le> 2 ^ 20" "day_mean tz es d = of_nat s / of_nat n"
    using whole_day_rep [OF assms(1,2,3)] by metis
  obtain s' n' :: nat where r': "0 < n'" "int n' \<le> 2 ^ 20"
    "day_mean tz es d' = of_nat s' / of_nat n'"
    using whole_day_rep [OF assms(1,2,4)] by metis
  have "day_mean tz es d + 2 / 2 ^ 49 \<le> day_mean tz es d'"
    using mean_gap [OF r(1) r'(1) r(2) r'(2)] assms(5) by (simp only: r(3) r'(3))
  then have "double (day_mean tz es d) < double (day_mean tz es d')"
    using whole_day_bounds(1) [OF assms(1,2,3)] whole_day_bounds(2) [OF assms(1,2,4)]
    by (intro double_separates)
  then show ?thesis
    by (simp only: whole_day_bounds(3) [OF assms(1,2,3)] whole_day_bounds(3) [OF assms(1,2,4)])
qed

lemma worst_day_exact:
  assumes "whole_moods es" and "int (length es) \<le> 2 ^ 20"
    and "w \<in> weekdays_of tz es" and "day_dmean tz es w = worst_dmean tz es"
  shows "day_mean tz es w = worst_mean tz es"
  unfolding worst_mean_def
proof (rule Min_eqI [symmetric])
  show "finite (day_mean tz es ` weekdays_of tz es)" by (simp add: weekdays_of_def)
  show "day_mean tz es w \<in> day_mean tz es ` weekdays_of tz es" using assms(3) by simp
  fix y assume "y \<in> day_mean tz es ` weekdays_of tz es"
  then obtain d where d: "d \<in> weekdays_of tz es" "y = day_mean tz es d" by auto
  show "day_mean tz es w \<le> y"
  proof (rule ccontr)
    assume "\<not> day_mean tz es w \<le> y"
    then have "day_mean tz es d < day_mean tz es w" by (simp add: d(2))
    then have "day_dmean tz es d < day_dmean tz es w"
      by (rule day_dmean_strict [OF assms(1,2) d(1) assms(3)])
    moreover have "worst_dmean tz es \<le> day_dmean tz es d"
      unfolding worst_dmean_def using d(1) by (intro Min_le) (simp_all add: weekdays_of_def)
    ultimately show False using assms(4) by simp
  qed
qed

lemma spread_exact:
  assumes "whole_moods es" and "int (length es) \<le> 2 ^ 20" and "es \<noteq> []"
    and "3 / 2 < best_mean tz es - worst_mean tz es"
  shows "3 / 2 < dsub (best_dmean tz es) (worst_dmean tz es)"
proof -
  have fin: "finite (weekdays_of tz es)" and ne: "weekdays_of tz es \<noteq> {}"
    using assms(3) by (simp_all add: weekdays_of_def)
  have "best_mean tz es \<in> day_mean tz es ` weekdays_of tz es"
    unfolding best_mean_def using fin ne by (intro Max_in) simp_all
  then obtain b where b: "b \<in> weekdays_of tz es" "day_mean tz es b = best_mean tz es"
    by (metis imageE)
  have "worst_mean tz es \<in> day_mean tz es ` weekdays_of tz es"
    unfolding worst_mean_def using fin ne by (intro Min_in) simp_all
  then obtain w where w: "w \<in> weekdays_of tz es" "day_mean tz es w = worst_mean tz es"
    by (metis imageE)
  have db: "best_dmean tz es = double (day_mean tz es b)"
    unfolding best_dmean_def
  proof (rule Max_eqI)
    show "finite (day_dmean tz es ` weekdays_of tz es)" using fin by simp
    show "double (day_mean tz es b) \<in> day_dmean tz es ` weekdays_of tz es"
      using b(1) whole_day_bounds(3) [OF assms(1,2) b(1)] by (metis imageI)
    fix y assume "y \<in> day_dmean tz es ` weekdays_of tz es"
    then obtain d where d: "d \<in> weekdays_of tz es" "y = day_dmean tz es d" by auto
    have "day_mean tz es d \<le> day_mean tz es b"
      unfolding b(2) best_mean_def using d(1) fin by (intro Max_ge) simp_all
    then have "double (day_mean tz es d) \<le> double (day_mean tz es b)" by (rule double_mono)
    then show "y \<le> double (day_mean tz es b)"
      by (simp only: d(2) whole_day_bounds(3) [OF assms(1,2) d(1)])
  qed
  have dw: "worst_dmean tz es = double (day_mean tz es w)"
    unfolding worst_dmean_def
  proof (rule Min_eqI)
    show "finite (day_dmean tz es ` weekdays_of tz es)" using fin by simp
    show "double (day_mean tz es w) \<in> day_dmean tz es ` weekdays_of tz es"
      using w(1) whole_day_bounds(3) [OF assms(1,2) w(1)] by (metis imageI)
    fix y assume "y \<in> day_dmean tz es ` weekdays_of tz es"
    then obtain d where d: "d \<in> weekdays_of tz es" "y = day_dmean tz es d" by auto
    have "day_mean tz es w \<le> day_mean tz es d"
      unfolding w(2) worst_mean_def using d(1) fin by (intro Min_le) simp_all
    then have "double (day_mean tz es w) \<le> double (day_mean tz es d)" by (rule double_mono)
    then show "double (day_mean tz es w) \<le> y"
      by (simp only: d(2) whole_day_bounds(3) [OF assms(1,2) d(1)])
  qed
  obtain sb nb :: nat where rb: "0 < nb" "int nb \<le> 2 ^ 20"
    "day_mean tz es b = of_nat sb / of_nat nb"
    using whole_day_rep [OF assms(1,2) b(1)] by metis
  obtain sw nw :: nat where rw: "0 < nw" "int nw \<le> 2 ^ 20"
    "day_mean tz es w = of_nat sw / of_nat nw"
    using whole_day_rep [OF assms(1,2) w(1)] by metis
  have "3 / 2 < day_mean tz es b - day_mean tz es w" using assms(4) by (simp only: b(2) w(2))
  then have "3 / 2 + 2 / 2 ^ 49 \<le> day_mean tz es b - day_mean tz es w"
    using spread_gap [OF rb(1) rw(1) rb(2) rw(2)] by (simp only: rb(3) rw(3))
  then have "3 / 2 < double (double (day_mean tz es b) - double (day_mean tz es w))"
    using whole_day_bounds(1) [OF assms(1,2) w(1)] whole_day_bounds(2) [OF assms(1,2) b(1)]
    by (intro double_threshold)
  then show ?thesis by (simp only: dsub_def db dw)
qed

section \<open>The aggregator\<close>

text \<open>
  Claim C1. For every log whose entries have mood, energy, anxiety and sleep in the range
  from 0 to 10, however many entries fall within the last 7 days, the wellness score is an
  integer between 0 and 100.

  The source does not keep to this: the exercise and social terms are \<open>count / 7 * 10\<close>, and
  the count is the number of entries created within the last 7 days, not a number of days,
  so it can exceed 7. Eight entries on eight consecutive calendar days, the oldest created
  6 days and 18 hours before the evaluation instant, each within the range and at the best
  values, give the score 102.
\<close>

theorem wellness_score_above_100:
  "list_all in_range full_week
   \<and> map (\<lambda>e. iso_date (timestamp e)) full_week = [0, 1, 2, 3, 4, 5, 6, 7]
   \<and> map_option wellnessScore (stats week_now full_week) = Some (Fin 102)"
proof -
  have "full_week \<noteq> []" by (simp add: full_week_def)
  moreover have "wellness_double week_now full_week = 102"
    by code_simp
  moreover have "list_all in_range full_week"
    by (simp add: full_week_def in_range_def entry_at_def)
  moreover have "map (\<lambda>e. iso_date (timestamp e)) full_week = [0, 1, 2, 3, 4, 5, 6, 7]"
    by (simp add: full_week_def entry_at_def iso_date_def day_ms_def)
  ultimately show ?thesis by (simp add: stats_nonempty)
qed

text \<open>
  Claim C2, as the specification states it: the wellness score is the rounded value of the
  weighted sum. Read in exact arithmetic this fails at rounding ties. For the single entry
  of mood 0, energy 0, anxiety 5 and sleep 9 the weighted sum is exactly 23.5, which rounds
  to 24; the source computes in doubles, where \<open>9 * 0.15\<close> falls just below 1.35 and the sum
  just below 23.5, and returns 23.
\<close>

theorem wellness_score_tie:
  "list_all in_range tie_log
   \<and> wellness_formula 0 tie_log = 24
   \<and> map_option wellnessScore (stats 0 tie_log) = Some (Fin 23)"
proof -
  have "tie_log \<noteq> []" by (simp add: tie_log_def)
  moreover have "wellness_double 0 tie_log = 23"
    by code_simp
  moreover have "wellness_formula 0 tie_log = 24"
    by (simp add: wellness_formula_def within_days_def tie_log_def entry_at_def day_ms_def
        mean_or_zero_def mean_def round_def floor_eq_iff)
  moreover have "list_all in_range tie_log"
    by (simp add: tie_log_def in_range_def entry_at_def)
  ultimately show ?thesis by (simp add: stats_nonempty)
qed

text \<open>
  Claim C2, amended. For every non-empty log and evaluation instant, the wellness score is
  \<^verbatim>\<open>Math.round\<close> of the weighted sum of the specification evaluated in double
  arithmetic in the order written, with the four averages (each the sum of the values in
  the order of the log, divided by their number) and the exercise and social counts taken
  over the entries created less than 7 days before the instant, an empty subset averaging
  to 0; the meditation flags do not contribute: rewriting them in any way leaves the score
  as it is.
\<close>

theorem wellness_score_formula:
  assumes "es \<noteq> []"
  shows "map_option wellnessScore (stats now es) = Some (Fin (of_int (wellness_double now es)))
    \<and> map_option wellnessScore (stats now (map (\<lambda>e. e\<lparr>meditation := f e\<rparr>) es))
        = map_option wellnessScore (stats now es)"
proof -
  have "map (\<lambda>e. e\<lparr>meditation := f e\<rparr>) es \<noteq> []" using assms by simp
  then show ?thesis
    using assms by (simp add: stats_nonempty wellness_double_meditation)
qed

theorem wellness_score_formula_witness:
  "[old_entry, entry_at 0 8 6 3 7 True False True] \<noteq> []
   \<and> map_option wellnessScore (stats 0 [old_entry, entry_at 0 8 6 3 7 True False True])
       = Some (Fin 62)"
proof -
  have w: "wellness_double 0 [old_entry, entry_at 0 8 6 3 7 True False True] = 62"
    by code_simp
  show ?thesis
    using wellness_score_formula [of "[old_entry, entry_at 0 8 6 3 7 True False True]" 0 "\<lambda>e. False"]
    by (simp add: w)
qed

text \<open>
  Claim C7. For every non-empty log and evaluation instant a snapshot is returned in which
  the four averages and the mood change are the one-decimal texts of finite numbers (never
  of NaN or of an infinity), the wellness score is a finite number, and the counts and the
  streak are natural numbers; when no entry was created within the last 7 days, the four
  averages are exactly 0, printed \<^verbatim>\<open>0.0\<close>.
\<close>

theorem stats_fields_finite:
  assumes "es \<noteq> []"
  shows "\<exists>s. stats now es = Some s
    \<and> (\<exists>a. avgMood s = toFixed1 (Fin a)) \<and> (\<exists>a. avgEnergy s = toFixed1 (Fin a))
    \<and> (\<exists>a. avgAnxiety s = toFixed1 (Fin a)) \<and> (\<exists>a. avgSleep s = toFixed1 (Fin a))
    \<and> is_finite (wellnessScore s) \<and> (\<exists>c. moodChange s = toFixed1 (Fin c))
    \<and> (filter (\<lambda>e. now - timestamp e < 7 * day_ms) es = [] \<longrightarrow>
          avgMood s = Decimal ''0.0'' \<and> avgEnergy s = Decimal ''0.0''
          \<and> avgAnxiety s = Decimal ''0.0'' \<and> avgSleep s = Decimal ''0.0'')"
proof -
  have zero: "toFixed1 (Fin 0) = Decimal ''0.0''"
    by code_simp
  obtain s where s: "stats now es = Some s"
    and m: "avgMood s = toFixed1 (Fin (dmean_or_zero (map mood (within_days 7 now es))))"
    and e: "avgEnergy s = toFixed1 (Fin (dmean_or_zero (map energy (within_days 7 now es))))"
    and a: "avgAnxiety s = toFixed1 (Fin (dmean_or_zero (map anxiety (within_days 7 now es))))"
    and l: "avgSleep s = toFixed1 (Fin (dmean_or_zero (map sleep (within_days 7 now es))))"
    and w: "wellnessScore s = Fin (of_int (wellness_double now es))"
    and c: "moodChange s = toFixed1 (Fin (dsub (dmean_or_zero (map mood (within_days 7 now es)))
        (dmean_or_zero (map mood
            (filter (\<lambda>e. timestamp e < now - 7 * day_ms \<and> timestamp e > now - 14 * day_ms) es)))))"
    by (simp add: stats_nonempty [OF assms] del: toFixed1.simps)
  have "filter (\<lambda>e. now - timestamp e < 7 * day_ms) es = [] \<longrightarrow>
      avgMood s = Decimal ''0.0'' \<and> avgEnergy s = Decimal ''0.0''
      \<and> avgAnxiety s = Decimal ''0.0'' \<and> avgSleep s = Decimal ''0.0''"
    by (simp add: m e a l within_days_def dmean_or_zero_def zero del: toFixed1.simps)
  moreover have "is_finite (wellnessScore s)" by (simp add: w)
  ultimately show ?thesis using s m e a l c by blast
qed

theorem stats_fields_finite_witness:
  "[old_entry] \<noteq> [] \<and> filter (\<lambda>e. 0 - timestamp e < 7 * day_ms) [old_entry] = []
   \<and> (\<exists>s. stats 0 [old_entry] = Some s \<and> avgMood s = Decimal ''0.0''
        \<and> avgEnergy s = Decimal ''0.0'' \<and> avgAnxiety s = Decimal ''0.0''
        \<and> avgSleep s = Decimal ''0.0'' \<and> is_finite (wellnessScore s))"
proof -
  have e: "filter (\<lambda>e. 0 - timestamp e < 7 * day_ms) [old_entry] = []"
    by (simp add: old_entry_def entry_at_def day_ms_def)
  show ?thesis
    using stats_fields_finite [of "[old_entry]" 0] e by auto
qed

text \<open>
  Claim C8, as the specification states it: the mood change is the mean mood of the last 7
  days minus the mean mood of the entries created in the half-open interval from
  \<open>now - 14d\<close> (included) to \<open>now - 7d\<close> (excluded). It fails in two ways. An entry created
  exactly 14 days before the instant is left out of the prior week by the source: with
  moods 5 now and 8 then, the source gives 5.0 where the claim gives -3. And the snapshot
  holds the difference printed with one decimal: with moods 5, 6, 6 this week and 5 the
  week before, the claim gives 2/3 and the snapshot holds \<^verbatim>\<open>0.7\<close>.
\<close>

theorem mood_change_boundary:
  "map_option moodChange (stats 0 boundary_log) = Some (Decimal ''5.0'')
   \<and> mood_change_claimed 0 boundary_log = - 3
   \<and> map_option moodChange (stats 0 thirds_log) = Some (Decimal ''0.7'')
   \<and> mood_change_claimed 0 thirds_log = 2 / 3"
proof -
  have "mood_change_claimed 0 boundary_log = - 3"
    by (simp add: mood_change_claimed_def within_days_def boundary_log_def entry_at_def
        day_ms_def mean_or_zero_def mean_def)
  moreover have "mood_change_claimed 0 thirds_log = 2 / 3"
    by (simp add: mood_change_claimed_def within_days_def thirds_log_def entry_at_def
        day_ms_def mean_or_zero_def mean_def)
  moreover have "map_option moodChange (stats 0 boundary_log) = Some (Decimal ''5.0'')"
    by code_simp
  moreover have "map_option moodChange (stats 0 thirds_log) = Some (Decimal ''0.7'')"
    by code_simp
  ultimately show ?thesis by simp
qed

text \<open>
  Claim C8, amended. For every non-empty log and evaluation instant, the mood change of the
  snapshot is the text \<^verbatim>\<open>toFixed(1)\<close> makes of the mean mood of the entries created less
  than 7 days before the instant minus the mean mood of the entries created strictly
  between \<open>now - 14d\<close> and \<open>now - 7d\<close>, the means and the difference in double arithmetic
  and an empty subset averaging to 0. An entry created exactly 14 days before the instant
  is not part of the prior week.
\<close>

theorem mood_change_open_interval:
  assumes "es \<noteq> []"
  shows "map_option moodChange (stats now es) = Some (toFixed1 (Fin (mood_change_double now es)))"
proof -
  have "filter (\<lambda>e. timestamp e < now - 7 * day_ms \<and> timestamp e > now - 14 * day_ms) es
      = filter (\<lambda>e. now - 14 * day_ms < timestamp e \<and> timestamp e < now - 7 * day_ms) es"
    by (rule filter_cong) auto
  then show ?thesis
    using assms by (simp add: stats_nonempty mood_change_double_def del: toFixed1.simps)
qed

theorem mood_change_open_interval_witness:
  "two_weeks_log \<noteq> []
   \<and> mood_change_double 0 two_weeks_log = - 3
   \<and> map_option moodChange (stats 0 two_weeks_log) = Some (Decimal ''-3.0'')"
proof -
  have a: "two_weeks_log \<noteq> []" by (simp add: two_weeks_log_def)
  have c: "mood_change_double 0 two_weeks_log = - 3"
    by code_simp
  have d: "toFixed1 (Fin (- 3)) = Decimal ''-3.0''"
    by code_simp
  show ?thesis
    using mood_change_open_interval [OF a, of 0] a c d by simp
qed

section \<open>Too little data\<close>

text \<open>
  Claim C5. For every log with fewer than 7 entries the pattern detector returns the empty
  list, whatever the entries hold; the result is a list, not an error.
\<close>

theorem few_entries_no_patterns:
  "length es < 7 \<Longrightarrow> patterns tz es = []"
  by (simp add: patterns_def)

theorem few_entries_no_patterns_witness:
  "length (replicate 6 (entry_at 0 9 9 0 9 True True True)) < 7
   \<and> patterns (\<lambda>t. 0) (replicate 6 (entry_at 0 9 9 0 9 True True True)) = []"
  using few_entries_no_patterns [of "replicate 6 (entry_at 0 9 9 0 9 True True True)" "\<lambda>t. 0"]
  by simp

text \<open>
  Claim C6. For the empty log, at every evaluation instant, the aggregator returns no
  snapshot (so no streak is reported), the pattern detector returns the empty list and the
  trend series is empty.
\<close>

theorem empty_collection:
  "stats now [] = None \<and> patterns tz [] = [] \<and> moodTrendData short_date [] = []"
  by (simp add: stats_def patterns_def moodTrendData_def)

section \<open>The streak\<close>

text \<open>
  Claim C3, as the specification states it: if the streak of a log is \<open>N\<close>, adding an
  entry of today, when no entry of today exists, gives \<open>N + 1\<close>, and adding a second entry
  on a day that already has one leaves the streak as it is. Both parts fail. With one entry
  of yesterday the streak is 0, and adding an entry of today makes it 2. With an entry of
  today and one of yesterday the streak is 2, and a second entry of today makes it 1: the
  walk compares the entry at index \<open>i\<close> with the day \<open>i\<close> days back, so the second entry of
  today is compared with yesterday.
\<close>

theorem streak_not_monotone:
  "iso_date (timestamp yesterday_entry) \<noteq> iso_date streak_now
   \<and> iso_date (timestamp today_entry) = iso_date streak_now
   \<and> iso_date (timestamp second_today_entry) = iso_date streak_now
   \<and> streak streak_now [yesterday_entry] = 0
   \<and> streak streak_now [today_entry, yesterday_entry] = 2
   \<and> streak streak_now [second_today_entry, today_entry, yesterday_entry] = 1"
  by (simp add: streak_def sortedEntries_def yesterday_entry_def today_entry_def
      second_today_entry_def entry_at_def iso_date_def streak_now_def day_ms_def)

text \<open>
  Claim C3, amended. For every log whose entries all fall on calendar days before today,
  the streak is 0; and if \<open>N\<close> is the streak of that log evaluated 24 hours earlier, adding
  one entry whose calendar day is today, at any position, gives the streak \<open>N + 1\<close>.
\<close>

theorem streak_first_entry_today:
  assumes "\<forall>e \<in> set (ys @ zs). iso_date (timestamp e) < iso_date now"
    and "iso_date (timestamp x) = iso_date now"
  shows "streak now (ys @ zs) = 0
    \<and> streak now (ys @ x # zs) = Suc (streak (now - day_ms) (ys @ zs))"
proof -
  have older: "\<forall>e \<in> set (ys @ zs). timestamp e < timestamp x"
    using assms by (auto intro: iso_date_less)
  have "\<forall>e \<in> set (ys @ zs). iso_date (timestamp e) \<noteq> iso_date now"
    using assms(1) by force
  then have zero: "streak now (ys @ zs) = 0"
    by (rule streak_zero_without_today)
  have "sortedEntries (ys @ x # zs) = x # sortedEntries (ys @ zs)"
    unfolding sortedEntries_def
    using older by (intro sort_key_newest_first) (auto intro: less_imp_le)
  then have "streak now (ys @ x # zs) = streak_loop now (Suc 0) (Suc 0) (sortedEntries (ys @ zs))"
    using assms(2) by (simp add: streak_def)
  also have "\<dots> = Suc (streak (now - day_ms) (ys @ zs))"
    by (simp add: streak_loop_shift streak_loop_Suc streak_def)
  finally show ?thesis using zero by simp
qed

theorem streak_first_entry_today_witness:
  "list_all (\<lambda>e. iso_date (timestamp e) < iso_date streak_now) ([] @ [yesterday_entry])
   \<and> iso_date (timestamp today_entry) = iso_date streak_now
   \<and> streak streak_now [yesterday_entry] = 0
   \<and> streak (streak_now - day_ms) [yesterday_entry] = 1
   \<and> streak streak_now [today_entry, yesterday_entry] = 2"
proof -
  have a: "\<forall>e \<in> set ([] @ [yesterday_entry]). iso_date (timestamp e) < iso_date streak_now"
    by (simp add: yesterday_entry_def entry_at_def iso_date_def streak_now_def day_ms_def)
  have b: "iso_date (timestamp today_entry) = iso_date streak_now"
    by (simp add: today_entry_def entry_at_def iso_date_def streak_now_def day_ms_def)
  have c: "streak (streak_now - day_ms) [yesterday_entry] = 1"
    by (simp add: streak_def sortedEntries_def yesterday_entry_def entry_at_def iso_date_def
        streak_now_def day_ms_def)
  show ?thesis
    using streak_first_entry_today [OF a b] a b c by (simp add: list_all_iff)
qed

section \<open>The pattern detector\<close>

text \<open>
  Claim C4, as the specification states it, fails in two ways. Its example is wrong: for
  exercise moods 8, 8, 8, 8 against 5, 5, 5, 5 the difference of the means is 3, and the
  source computes \<open>min(95, round(3 * 15))\<close>, which is 45, not 95. And the threshold is
  tested in doubles: for exercise moods 9, 9, 9, 9, 8 against 8, 8, 8, 8, 7 the means
  differ by exactly 1, which is not more than 1, but in doubles 8.8 - 7.8 lies just above
  1, and the source emits the pattern, with confidence 15.
\<close>

theorem exercise_example_confidence:
  "map mood (filter exercise exercise_log) = [8, 8, 8, 8]
   \<and> map mood (filter (\<lambda>e. \<not> exercise e) exercise_log) = [5, 5, 5, 5]
   \<and> exercise_mood_diff exercise_log = 3
   \<and> map confidence (filter (\<lambda>p. icon p = Dumbbell) (patterns (\<lambda>t. 0) exercise_log)) = [Fin 45]
   \<and> exercise_mood_diff near_tie_log = 1
   \<and> map confidence (filter (\<lambda>p. icon p = Dumbbell) (patterns (\<lambda>t. 0) near_tie_log)) = [Fin 15]"
proof -
  have "exercise_mood_diff exercise_log = 3"
    by (simp add: exercise_mood_diff_def exercise_log_def entry_at_def mean_def numeral_eq_Suc)
  moreover have "exercise_mood_diff near_tie_log = 1"
    by (simp add: exercise_mood_diff_def near_tie_log_def entry_at_def mean_def)
  moreover have "map confidence (filter (\<lambda>p. icon p = Dumbbell) (patterns (\<lambda>t. 0) exercise_log))
      = [Fin 45]"
    by code_simp
  moreover have "map confidence (filter (\<lambda>p. icon p = Dumbbell) (patterns (\<lambda>t. 0) near_tie_log))
      = [Fin 15]"
    by code_simp
  moreover have "map mood (filter exercise exercise_log) = [8, 8, 8, 8]"
    by (simp add: exercise_log_def entry_at_def numeral_eq_Suc)
  moreover have "map mood (filter (\<lambda>e. \<not> exercise e) exercise_log) = [5, 5, 5, 5]"
    by (simp add: exercise_log_def entry_at_def numeral_eq_Suc)
  ultimately show ?thesis by simp
qed

text \<open>
  Claim C4, amended. For every log with at least 7 entries, more than 3 of them with
  exercise and more than 3 without, the detector emits the exercise pattern (a booster)
  exactly when the mean mood with exercise minus the mean mood without, both means and
  their difference computed in double arithmetic, is more than 1, and its confidence is
  \<open>min(95, round(diff * 15))\<close> for that difference: 45 in the example of the
  specification, and 95 once the difference reaches 6.3.
\<close>

theorem exercise_pattern:
  assumes "7 \<le> length es"
    and "3 < length (filter exercise es)" and "3 < length (filter (\<lambda>e. \<not> exercise e) es)"
  shows "filter (\<lambda>p. icon p = Dumbbell) (patterns tz es) =
    (if 1 < exercise_diff_double es
     then [\<lparr> ptype = Booster, title = ''Exercise Boosts Your Mood'',
             confidence = Fin (of_int (min 95 (round (dmul (exercise_diff_double es) 15)))),
             icon = Dumbbell \<rparr>]
     else [])"
proof -
  have "filter (\<lambda>p. icon p = Dumbbell) (patterns tz es)
      = filter (\<lambda>p. icon p = Dumbbell) (exercise_step es [])"
    by (simp add: patterns_append [OF assms(1)]
        icons_filter_other [OF social_step_icons] icons_filter_other [OF sleep_step_icons]
        icons_filter_other [OF day_step_icons] icons_filter_other [OF meditation_step_icons])
  then show ?thesis
    by (simp add: exercise_step_closed [OF assms(2,3)])
qed

theorem exercise_pattern_witness:
  "7 \<le> length capped_log
   \<and> 3 < length (filter exercise capped_log)
   \<and> 3 < length (filter (\<lambda>e. \<not> exercise e) capped_log)
   \<and> exercise_diff_double capped_log = 7
   \<and> filter (\<lambda>p. icon p = Dumbbell) (patterns (\<lambda>t. 0) capped_log) =
       [\<lparr> ptype = Booster, title = ''Exercise Boosts Your Mood'', confidence = Fin 95,
          icon = Dumbbell \<rparr>]"
proof -
  have a: "7 \<le> length capped_log" by (simp add: capped_log_def)
  have b: "3 < length (filter exercise capped_log)"
    by (simp add: capped_log_def entry_at_def)
  have c: "3 < length (filter (\<lambda>e. \<not> exercise e) capped_log)"
    by (simp add: capped_log_def entry_at_def)
  have d: "exercise_diff_double capped_log = 7"
    by code_simp
  have e: "min 95 (round (dmul 7 15)) = 95"
    by code_simp
  show ?thesis
    using exercise_pattern [OF a b c, of "\<lambda>t. 0"] a b c d e by simp
qed

text \<open>
  Claim C9. For every log with at least 7 entries: when fewer than 5 distinct weekdays are
  represented, no day pattern is emitted, whatever the spread of the weekday means; when at
  least 5 are represented and the best weekday mean exceeds the worst by more than 1.5,
  exactly one day pattern is emitted, it names a weekday whose mean mood is the worst, and
  its confidence is 75.

  The second half is stated twice. First for the means and the spread as the source
  computes them, in doubles, for every log. Then for the exact means and the exact spread,
  for the logs of the data model: moods that are whole numbers from 0 to 10, and at most
  \<open>2 ^ 20\<close> entries (the page loads 100). On these the rounding changes neither the
  comparison with 1.5 nor the choice of the worst weekday.
\<close>

theorem day_pattern:
  assumes "7 \<le> length es"
  shows "(card (weekdays_of tz es) < 5 \<longrightarrow> filter (\<lambda>p. ptype p = Day) (patterns tz es) = [])
    \<and> (5 \<le> card (weekdays_of tz es) \<and> 3 / 2 < dsub (best_dmean tz es) (worst_dmean tz es) \<longrightarrow>
         (\<exists>w \<in> weekdays_of tz es. day_dmean tz es w = worst_dmean tz es
            \<and> filter (\<lambda>p. ptype p = Day) (patterns tz es) =
                [\<lparr> ptype = Day, title = w @ ''s Are Harder for You'', confidence = Fin 75,
                   icon = Calendar \<rparr>]))
    \<and> (whole_moods es \<and> int (length es) \<le> 2 ^ 20
         \<and> 5 \<le> card (weekdays_of tz es) \<and> 3 / 2 < best_mean tz es - worst_mean tz es \<longrightarrow>
         (\<exists>w \<in> weekdays_of tz es. day_mean tz es w = worst_mean tz es
            \<and> filter (\<lambda>p. ptype p = Day) (patterns tz es) =
                [\<lparr> ptype = Day, title = w @ ''s Are Harder for You'', confidence = Fin 75,
                   icon = Calendar \<rparr>]))"
proof -
  have ne: "es \<noteq> []" using assms by auto
  then obtain w where w: "w \<in> weekdays_of tz es" "day_dmean tz es w = worst_dmean tz es"
    "day_step tz es [] =
        (if 5 \<le> card (weekdays_of tz es) \<and> 3 / 2 < dsub (best_dmean tz es) (worst_dmean tz es)
         then [\<lparr> ptype = Day, title = w @ ''s Are Harder for You'', confidence = Fin 75,
                 icon = Calendar \<rparr>]
         else [])"
    using day_step_closed [of es tz] by blast
  have few: "card (weekdays_of tz es) < 5 \<longrightarrow> filter (\<lambda>p. ptype p = Day) (patterns tz es) = []"
    using w(3) by (simp add: only_day_step_emits_day [OF assms])
  have emit: "5 \<le> card (weekdays_of tz es) \<and> 3 / 2 < dsub (best_dmean tz es) (worst_dmean tz es) \<longrightarrow>
      filter (\<lambda>p. ptype p = Day) (patterns tz es) =
        [\<lparr> ptype = Day, title = w @ ''s Are Harder for You'', confidence = Fin 75,
           icon = Calendar \<rparr>]"
    using w(3) by (simp add: only_day_step_emits_day [OF assms])
  have exact: "whole_moods es \<and> int (length es) \<le> 2 ^ 20
      \<and> 5 \<le> card (weekdays_of tz es) \<and> 3 / 2 < best_mean tz es - worst_mean tz es \<longrightarrow>
      day_mean tz es w = worst_mean tz es
      \<and> filter (\<lambda>p. ptype p = Day) (patterns tz es) =
          [\<lparr> ptype = Day, title = w @ ''s Are Harder for You'', confidence = Fin 75,
             icon = Calendar \<rparr>]"
  proof (intro impI, elim conjE)
    assume h: "whole_moods es" "int (length es) \<le> 2 ^ 20" "5 \<le> card (weekdays_of tz es)"
      "3 / 2 < best_mean tz es - worst_mean tz es"
    have "3 / 2 < dsub (best_dmean tz es) (worst_dmean tz es)"
      using h(1,2) ne h(4) by (rule spread_exact)
    with emit h(3) have "filter (\<lambda>p. ptype p = Day) (patterns tz es) =
        [\<lparr> ptype = Day, title = w @ ''s Are Harder for You'', confidence = Fin 75,
           icon = Calendar \<rparr>]" by simp
    moreover have "day_mean tz es w = worst_mean tz es"
      using h(1,2) w(1,2) by (rule worst_day_exact)
    ultimately show "day_mean tz es w = worst_mean tz es
      \<and> filter (\<lambda>p. ptype p = Day) (patterns tz es) =
          [\<lparr> ptype = Day, title = w @ ''s Are Harder for You'', confidence = Fin 75,
             icon = Calendar \<rparr>]" by simp
  qed
  show ?thesis using few emit exact w(1,2) by blast
qed

theorem day_pattern_witness:
  "7 \<le> length few_days_log
   \<and> card (weekdays_of (\<lambda>t. 0) few_days_log) < 5
   \<and> 3 / 2 < dsub (best_dmean (\<lambda>t. 0) few_days_log) (worst_dmean (\<lambda>t. 0) few_days_log)
   \<and> filter (\<lambda>p. ptype p = Day) (patterns (\<lambda>t. 0) few_days_log) = []
   \<and> 7 \<le> length all_days_log
   \<and> whole_moods all_days_log
   \<and> int (length all_days_log) \<le> 2 ^ 20
   \<and> 5 \<le> card (weekdays_of (\<lambda>t. 0) all_days_log)
   \<and> 3 / 2 < dsub (best_dmean (\<lambda>t. 0) all_days_log) (worst_dmean (\<lambda>t. 0) all_days_log)
   \<and> 3 / 2 < best_mean (\<lambda>t. 0) all_days_log - worst_mean (\<lambda>t. 0) all_days_log
   \<and> filter (\<lambda>p. ptype p = Day) (patterns (\<lambda>t. 0) all_days_log) =
       [\<lparr> ptype = Day, title = ''Mondays Are Harder for You'', confidence = Fin 75,
          icon = Calendar \<rparr>]"
proof -
  have f1: "7 \<le> length few_days_log" by (simp add: few_days_log_def)
  have f2: "card (weekdays_of (\<lambda>t. 0) few_days_log) < 5" by (simp add: few_days_set)
  have d: "dsub 9 2 = 7" "dsub 9 3 = 6"
    by code_simp+
  have f3: "3 / 2 < dsub (best_dmean (\<lambda>t. 0) few_days_log) (worst_dmean (\<lambda>t. 0) few_days_log)"
    by (simp add: best_dmean_def worst_dmean_def few_days_set few_days_means d)
  have a1: "7 \<le> length all_days_log" by (simp add: all_days_log_def)
  have a2: "5 \<le> card (weekdays_of (\<lambda>t. 0) all_days_log)" by (simp add: all_days_set)
  have a3: "3 / 2 < dsub (best_dmean (\<lambda>t. 0) all_days_log) (worst_dmean (\<lambda>t. 0) all_days_log)"
    by (simp add: best_dmean_def worst_dmean_def all_days_set all_days_means d)
  have worst: "worst_mean (\<lambda>t. 0) all_days_log = 3"
    by (simp add: worst_mean_def all_days_set all_days_exact_means)
  have a5: "3 / 2 < best_mean (\<lambda>t. 0) all_days_log - worst_mean (\<lambda>t. 0) all_days_log"
    by (simp add: best_mean_def worst all_days_set all_days_exact_means)
  have a6: "int (length all_days_log) \<le> 2 ^ 20" by (simp add: all_days_log_def)
  note a7 = all_days_whole
  obtain w where w: "w \<in> weekdays_of (\<lambda>t. 0) all_days_log"
    "day_mean (\<lambda>t. 0) all_days_log w = worst_mean (\<lambda>t. 0) all_days_log"
    "filter (\<lambda>p. ptype p = Day) (patterns (\<lambda>t. 0) all_days_log) =
       [\<lparr> ptype = Day, title = w @ ''s Are Harder for You'', confidence = Fin 75,
          icon = Calendar \<rparr>]"
    using day_pattern [OF a1, of "\<lambda>t. 0"] a2 a5 a6 a7 by blast
  have "w = ''Monday''"
    using w(1,2) unfolding worst all_days_set by (auto simp: all_days_exact_means)
  then have a4: "filter (\<lambda>p. ptype p = Day) (patterns (\<lambda>t. 0) all_days_log) =
       [\<lparr> ptype = Day, title = ''Mondays Are Harder for You'', confidence = Fin 75,
          icon = Calendar \<rparr>]"
    using w(3) by simp
  have f4: "filter (\<lambda>p. ptype p = Day) (patterns (\<lambda>t. 0) few_days_log) = []"
    using day_pattern [OF f1, of "\<lambda>t. 0"] f2 by blast
  show ?thesis using f1 f2 f3 f4 a1 a2 a3 a4 a5 a6 a7 by blast
qed

text \<open>
  Claim C10. For every log, the patterns come in the order of the heuristics (exercise,
  social, sleep, day of week, meditation), whatever their confidences, with at most one
  pattern for each heuristic and so at most 5 patterns. The heuristics are told apart by
  the icon each attaches.
\<close>

theorem patterns_fixed_order:
  "subseq (map icon (patterns tz es)) [Dumbbell, Users, Moon, Calendar, Brain]
   \<and> length (patterns tz es) \<le> 5"
proof (cases "7 \<le> length es")
  case False
  then show ?thesis by (simp add: patterns_def)
next
  case True
  have "subseq (map icon (exercise_step es []) @ map icon (social_step es [])
        @ map icon (sleep_step es []) @ map icon (day_step tz es [])
        @ map icon (meditation_step es []))
      ([Dumbbell] @ [Users] @ [Moon] @ [Calendar] @ [Brain])"
    by (intro list_emb_append_mono subseq_single exercise_step_icons social_step_icons
        sleep_step_icons day_step_icons meditation_step_icons)
  then have s: "subseq (map icon (patterns tz es)) [Dumbbell, Users, Moon, Calendar, Brain]"
    by (simp add: patterns_append [OF True])
  then have "length (map icon (patterns tz es)) \<le> length [Dumbbell, Users, Moon, Calendar, Brain]"
    by (rule list_emb_length)
  with s show ?thesis by simp
qed

end
